theory Spec2Isabelle
  imports Complex_Main "HOL-Library.Multiset" "HOL-Library.Monad_Syntax"
begin

section \<open>Loop closing of stereo\_slam: data model\<close>

text \<open>
  The development embeds \<^verbatim>\<open>src/src/loop_closing.cpp\<close> (class \<^verbatim>\<open>LoopClosing\<close>).
  Floating point payloads (image coordinates, 3D points, hash components, scores) are
  values of a type variable \<open>'f\<close>; rigid transforms (\<^verbatim>\<open>tf::Transform\<close>) are values
  of a type variable \<open>'t\<close> with a product and an inverse; the pose graph object behind
  \<^verbatim>\<open>graph_\<close> is a value of a type variable \<open>'g\<close>; the hash object \<^verbatim>\<open>hash_\<close> is a
  value of a type variable \<open>'b\<close>. C++ \<^verbatim>\<open>int\<close> values are modelled as \<open>int\<close>: cluster
  identifiers and counts stay far below the 32 bit range.
\<close>

text \<open>What C++ leaves undefined, or raises, is a value of the model.\<close>

datatype error =
  IndexOutOfRange        \<comment> \<open>\<^verbatim>\<open>operator[]\<close> of a vector outside its range\<close>
| FrontOfEmptyQueue      \<comment> \<open>\<^verbatim>\<open>front()\<close> of an empty deque\<close>
| FloatToIntUndefined    \<comment> \<open>conversion of a non-finite floating point value to \<^verbatim>\<open>int\<close>\<close>
| FilesystemException    \<comment> \<open>an exception of \<^verbatim>\<open>boost::filesystem\<close>, which \<^verbatim>\<open>run\<close> does not catch\<close>

type_synonym 'e Mat = "'e list list"  \<comment> \<open>\<^verbatim>\<open>cv::Mat\<close> as its list of rows\<close>

type_synonym 'f Point2f = "'f \<times> 'f"
type_synonym 'f Point3f = "'f \<times> 'f \<times> 'f"

record 'f KeyPoint =
  pt :: "'f Point2f"
  kp_size :: 'f
  kp_angle :: 'f
  kp_response :: 'f
  kp_octave :: int
  kp_class_id :: int

text \<open>Of \<^verbatim>\<open>cv::DMatch\<close>, the two indices that the class reads.\<close>

record DMatch =
  queryIdx :: int
  trainIdx :: int

text \<open>
  Modelled from the spec: the class \<^verbatim>\<open>Cluster\<close> (\<^verbatim>\<open>cluster.h\<close> is not among the
  sources). Section 3 of the specification lists its members; the accessors are the ones
  \<^verbatim>\<open>loop_closing.cpp\<close> calls (\<^verbatim>\<open>getId\<close>, \<^verbatim>\<open>getFrameId\<close>, \<^verbatim>\<open>getCameraPose\<close>,
  \<^verbatim>\<open>getKp\<close>, \<^verbatim>\<open>getLdb\<close>, \<^verbatim>\<open>getSift\<close>, \<^verbatim>\<open>getPoints\<close>).
\<close>

record ('f, 't) Cluster =
  getId :: int
  getFrameId :: int
  getCameraPose :: 't
  getKp :: "'f KeyPoint list"
  getLdb :: "nat Mat"
  getSift :: "'f Mat"
  getPoints :: "'f Point3f list"

text \<open>What \<^verbatim>\<open>processNewCluster\<close> writes into the file of a cluster.\<close>

record 'f ClusterYml =
  yml_frame_id :: int
  yml_kp :: "'f KeyPoint list"
  yml_desc :: "nat Mat"
  yml_points :: "'f Point3f list"

datatype 'f yml_file =
  Unopenable                 \<comment> \<open>the file exists and \<^verbatim>\<open>fs.open\<close> fails\<close>
| Yml "'f ClusterYml"

datatype 'a call = Throws | Returns 'a

subsection \<open>Arithmetic of stage 1\<close>

text \<open>
  \<^verbatim>\<open>round\<close> of the C library: to the nearest integer, halves away from zero.
\<close>

definition c_round :: "rat \<Rightarrow> int" where
  "c_round x = (if 0 \<le> x then \<lfloor>x + 1 / 2\<rfloor> else \<lceil>x - 1 / 2\<rceil>)"

text \<open>
  Line 212:
  \<^verbatim>\<open>int m_percentage = round(100.0 * (float) matches_1.size() / (float) min(size_c, size_n));\<close>
  The quotient is taken in the rationals: for counts below \<open>2^24\<close> the conversions to
  \<^verbatim>\<open>float\<close> are exact and the correctly rounded double quotient rounds to the same
  integer. A zero divisor gives an infinity or a NaN, whose conversion to \<^verbatim>\<open>int\<close> is
  undefined.
\<close>

definition percentage_of_matchings :: "nat \<Rightarrow> int \<Rightarrow> int \<Rightarrow> error + int" where
  "percentage_of_matchings n_matches size_c size_n =
     (if min size_c size_n = 0 then Inl FloatToIntUndefined
      else Inr (c_round (100 * of_nat n_matches / of_int (min size_c size_n))))"

subsection \<open>The collaborators of the class\<close>

text \<open>
  The constants of \<^verbatim>\<open>constants.h\<close>, the functions of \<^verbatim>\<open>Tools\<close>, of the pose
  graph (\<^verbatim>\<open>Graph\<close>), of the hash (\<^verbatim>\<open>haloc::Hash\<close>), of OpenCV and of
  \<^verbatim>\<open>boost::filesystem\<close> that \<^verbatim>\<open>loop_closing.cpp\<close> calls are not among the sources:
  they are the fields of a record that every operation takes. The functions of the graph
  and of the hash take the object they act on. \<^verbatim>\<open>solvePnPRansac\<close> draws from the random
  number generator of OpenCV, so it takes the number of its earlier runs as well.
  \<^verbatim>\<open>ratioMatching\<close> is used with the threshold \<^verbatim>\<open>matching_th = 0.8\<close> only, and
  \<^verbatim>\<open>solvePnPRansac\<close> with 100 iterations and a reprojection error of 5.0 only.
  \<^verbatim>\<open>LC_MIN_INLIERS\<close> is compared with the sizes of vectors and is a natural number.
  \<^verbatim>\<open>create_directory\<close> takes the path below \<^verbatim>\<open>WORKING_DIRECTORY\<close>.
\<close>

record ('f, 't, 'g, 'b) env =
  LC_DISCARD_WINDOW :: int
  LC_MIN_INLIERS :: nat
  LC_MAX_INLIERS :: int
  LC_NEIGHBORS :: int
  ratioMatching :: "nat Mat \<Rightarrow> nat Mat \<Rightarrow> DMatch list"
  solvePnPRansac ::
    "nat \<Rightarrow> 'f Point3f list \<Rightarrow> 'f Point2f list \<Rightarrow> 'f Mat \<Rightarrow> int \<Rightarrow> int list \<times> 'f Mat \<times> 'f Mat"
  buildTransformation :: "'f Mat \<Rightarrow> 'f Mat \<Rightarrow> 't"
  transformPoint :: "'f Point3f \<Rightarrow> 't \<Rightarrow> 'f Point3f"
  findClosestVertices :: "'g \<Rightarrow> int \<Rightarrow> int \<Rightarrow> int \<Rightarrow> int \<Rightarrow> int list"
  getFrameVertices :: "'g \<Rightarrow> int \<Rightarrow> int list"
  getVertexPose :: "'g \<Rightarrow> int \<Rightarrow> 't"
  getVertexPoseRelativeToCamera :: "'g \<Rightarrow> int \<Rightarrow> 't"
  getVertexCameraPose :: "'g \<Rightarrow> int \<Rightarrow> 't"
  getCameraMatrix :: "'g \<Rightarrow> 'f Mat"
  addEdge :: "'g \<Rightarrow> int \<Rightarrow> int \<Rightarrow> 't \<Rightarrow> int \<Rightarrow> 'g"
  Graph_update :: "'g \<Rightarrow> 'g"
  isInitialized :: "'b \<Rightarrow> bool"
  hash_init :: "'b \<Rightarrow> 'f Mat \<Rightarrow> 'b"
  getHash :: "'b \<Rightarrow> 'f Mat \<Rightarrow> 'f list"
  hash_match :: "'b \<Rightarrow> 'f list \<Rightarrow> 'f list \<Rightarrow> 'f"
  create_directory :: "string \<Rightarrow> bool call"
  default_pose :: 't

text \<open>
  Modelled from the spec: \<^verbatim>\<open>Cluster::getWorldPoints\<close> and the default constructor of
  \<^verbatim>\<open>Cluster\<close> (\<^verbatim>\<open>cluster.cpp\<close> is not among the sources). Section 3: the world
  points are row-aligned with the stored points, one for each; the cluster with zero
  descriptor rows is the empty sentinel.
\<close>

definition getWorldPoints :: "('f, 't, 'g, 'b) env \<Rightarrow> ('f, 't) Cluster \<Rightarrow> 'f Point3f list" where
  "getWorldPoints E c = map (\<lambda>p. transformPoint E p (getCameraPose c)) (getPoints c)"

definition empty_Cluster :: "('f, 't, 'g, 'b) env \<Rightarrow> ('f, 't) Cluster" where
  "empty_Cluster E =
     \<lparr>getId = - 1, getFrameId = - 1, getCameraPose = default_pose E, getKp = [],
      getLdb = [], getSift = [], getPoints = []\<rparr>"

text \<open>
  Modelled from the spec: \<^verbatim>\<open>Tools::sortByMatching\<close> (\<^verbatim>\<open>tools.h\<close> is not among the
  sources). Section 4.4: the candidates are ranked descending by similarity.
\<close>

definition sortByMatching :: "int \<times> 'f::linorder \<Rightarrow> int \<times> 'f \<Rightarrow> bool" where
  "sortByMatching d1 d2 = (snd d2 < snd d1)"

text \<open>
  \<^verbatim>\<open>std::sort\<close> with a comparison function. The order in which it leaves equivalent
  elements is unspecified; the model inserts one element after the other.
\<close>

fun sort_insert :: "('a \<Rightarrow> 'a \<Rightarrow> bool) \<Rightarrow> 'a \<Rightarrow> 'a list \<Rightarrow> 'a list" where
  "sort_insert cmp x [] = [x]"
| "sort_insert cmp x (y # ys) = (if cmp x y then x # y # ys else y # sort_insert cmp x ys)"

definition std_sort :: "('a \<Rightarrow> 'a \<Rightarrow> bool) \<Rightarrow> 'a list \<Rightarrow> 'a list" where
  "std_sort cmp xs = foldr (sort_insert cmp) xs []"

subsection \<open>The members of the class\<close>

text \<open>
  The members keep their names without the trailing underscore.
  \<open>files\<close> is the content of the directory \<^verbatim>\<open>execution_dir_\<close>: the file of cluster
  \<open>i\<close> is \<^verbatim>\<open>execution_dir_/i.yml\<close>. \<open>pnp_runs\<close> counts the runs of
  \<^verbatim>\<open>solvePnPRansac\<close>, and \<open>ros_errors\<close> collects the messages of \<^verbatim>\<open>ROS_ERROR\<close>.
  The publishers, the camera model and the images of the loop closures are left out:
  nothing the operations below compute depends on them.
\<close>

record ('f, 't, 'g, 'b) LoopClosing =
  c_cluster :: "('f, 't) Cluster"
  cluster_queue :: "('f, 't) Cluster list"
  hash :: 'b
  hash_table :: "(int \<times> 'f list) list"
  lc_found :: "(int \<times> int) list"
  num_loop_closures :: int
  graph :: 'g
  files :: "int \<rightharpoonup> 'f yml_file"
  pnp_runs :: nat
  ros_errors :: "string list"

text \<open>\<^verbatim>\<open>v[i]\<close> for an \<^verbatim>\<open>int\<close> index: undefined outside the vector.\<close>

definition elem_at :: "'a list \<Rightarrow> int \<Rightarrow> 'a option" where
  "elem_at v i = (if 0 \<le> i \<and> i < int (length v) then Some (v ! nat i) else None)"

subsection \<open>Ingestion and the cluster store\<close>

text \<open>Lines 107 to 130.\<close>

definition processNewCluster ::
  "('f, 't, 'g, 'b) env \<Rightarrow> ('f, 't, 'g, 'b) LoopClosing \<Rightarrow> error + ('f, 't, 'g, 'b) LoopClosing" where
  "processNewCluster E st =
     (case cluster_queue st of
        [] \<Rightarrow> Inl FrontOfEmptyQueue
      | c # rest \<Rightarrow>
          let h = (if \<not> isInitialized E (hash st) then hash_init E (hash st) (getSift c)
                   else hash st)
          in Inr (st\<lparr>c_cluster := c,
                    cluster_queue := rest,
                    hash := h,
                    hash_table := hash_table st @ [(getId c, getHash E h (getSift c))],
                    files := (files st)(getId c \<mapsto>
                      Yml \<lparr>yml_frame_id = getFrameId c, yml_kp = getKp c,
                           yml_desc = getLdb c, yml_points = getPoints c\<rparr>)\<rparr>))"

text \<open>Lines 591 to 619.\<close>

definition readCluster ::
  "('f, 't, 'g, 'b) env \<Rightarrow> ('f, 't, 'g, 'b) LoopClosing \<Rightarrow> int \<Rightarrow> ('f, 't) Cluster" where
  "readCluster E st i =
     (case files st i of
        None \<Rightarrow> empty_Cluster E
      | Some Unopenable \<Rightarrow> empty_Cluster E
      | Some (Yml y) \<Rightarrow>
          \<lparr>getId = i, getFrameId = yml_frame_id y,
           getCameraPose = getVertexCameraPose E (graph st) i,
           getKp = yml_kp y, getLdb = yml_desc y, getSift = [], getPoints = yml_points y\<rparr>)"

subsection \<open>Hash search\<close>

text \<open>Line 566, the discard window.\<close>

definition in_discard_window :: "int \<Rightarrow> int \<Rightarrow> int \<Rightarrow> bool" where
  "in_discard_window cluster_id w i = (cluster_id - w < i \<and> i < cluster_id + w)"

text \<open>Lines 549 to 556.\<close>

definition no_candidates :: "(int \<times> int) list \<Rightarrow> int \<Rightarrow> int list" where
  "no_candidates lc cluster_id =
     concat (map (\<lambda>r. (if fst r = cluster_id then [snd r] else []) @
                       (if snd r = cluster_id then [fst r] else [])) lc)"

text \<open>Lines 561 to 579: the entries of the hash table that are matched with the query.\<close>

definition eligible ::
  "('f, 't, 'g, 'b) env \<Rightarrow> ('f, 't, 'g, 'b) LoopClosing \<Rightarrow> int \<Rightarrow> (int \<times> 'f list) list" where
  "eligible E st cluster_id =
     filter (\<lambda>e. \<not> in_discard_window cluster_id (LC_DISCARD_WINDOW E) (fst e) \<and>
                 fst e \<noteq> cluster_id \<and>
                 fst e \<notin> set (no_candidates (lc_found st) cluster_id))
       (hash_table st)"

text \<open>Lines 575 to 578: the matchings of the query hash with these entries.\<close>

definition all_matchings ::
  "('f, 't, 'g, 'b) env \<Rightarrow> ('f, 't, 'g, 'b) LoopClosing \<Rightarrow> int \<Rightarrow> 'f list \<Rightarrow> (int \<times> 'f) list" where
  "all_matchings E st cluster_id hash_q =
     map (\<lambda>e. (fst e, hash_match E (hash st) hash_q (snd e))) (eligible E st cluster_id)"

text \<open>Lines 540 to 589.\<close>

definition getCandidates ::
  "('f::linorder, 't, 'g, 'b) env \<Rightarrow> ('f, 't, 'g, 'b) LoopClosing \<Rightarrow> int \<Rightarrow>
     error + (int \<times> 'f) list" where
  "getCandidates E st cluster_id =
     (if int (length (hash_table st)) \<le> LC_DISCARD_WINDOW E then Inr []
      else case elem_at (hash_table st) cluster_id of
        None \<Rightarrow> Inl IndexOutOfRange
      | Some q \<Rightarrow>
          let hash_q = snd q
          in Inr (take 5 (std_sort sortByMatching (all_matchings E st cluster_id hash_q))))"

text \<open>
  The invariant that reading \<^verbatim>\<open>hash_table_[cluster_id]\<close> relies on: the identifiers in
  the table are \<open>0, 1, 2, \<dots>\<close> in this order.
\<close>

definition dense_ids :: "(int \<times> 'h) list \<Rightarrow> bool" where
  "dense_ids table = (map fst table = map int [0..<length table])"

subsection \<open>Geometric verification\<close>

text \<open>
  Lines 226 to 260: the descriptors, the world points, the keypoints and the cluster
  identifiers of the candidate and of its neighbours in the graph.
\<close>

definition candidate_pool ::
  "('f, 't, 'g, 'b) env \<Rightarrow> ('f, 't, 'g, 'b) LoopClosing \<Rightarrow> ('f, 't) Cluster \<Rightarrow>
     nat Mat \<times> 'f Point3f list \<times> 'f KeyPoint list \<times> int list" where
  "candidate_pool E st candidate =
     foldl
       (\<lambda>(all_candidate_desc, all_candidate_points, all_candidate_kp, cluster_candidate_list) j.
          let candidate_neighbor = readCluster E st j;
              c_n_desc = getLdb candidate_neighbor
          in if length c_n_desc = 0
             then (all_candidate_desc, all_candidate_points, all_candidate_kp,
                   cluster_candidate_list)
             else
               let points_tmp = getWorldPoints E candidate_neighbor;
                   kp_tmp = getKp candidate_neighbor
               in (all_candidate_desc @ c_n_desc,
                   all_candidate_points @ points_tmp,
                   all_candidate_kp @ kp_tmp,
                   cluster_candidate_list @
                     replicate (length points_tmp) (getId candidate_neighbor)))
       (getLdb candidate, getWorldPoints E candidate, getKp candidate,
        replicate (length (getWorldPoints E candidate)) (getId candidate))
       (findClosestVertices E (graph st) (getId candidate) (getId (c_cluster st))
          (LC_DISCARD_WINDOW E) (LC_NEIGHBORS E))"

text \<open>
  Lines 223, 224 and 262 to 286: the descriptors, the keypoints and the cluster
  identifiers of the current cluster and of the other clusters of its frame.
\<close>

definition frame_pool ::
  "('f, 't, 'g, 'b) env \<Rightarrow> ('f, 't, 'g, 'b) LoopClosing \<Rightarrow>
     nat Mat \<times> 'f KeyPoint list \<times> int list" where
  "frame_pool E st =
     foldl
       (\<lambda>(all_frame_desc, all_frame_kp, cluster_frame_list) j.
          if j = getId (c_cluster st) then (all_frame_desc, all_frame_kp, cluster_frame_list)
          else
            let frame_cluster = readCluster E st j;
                f_n_desc = getLdb frame_cluster
            in if length f_n_desc = 0 then (all_frame_desc, all_frame_kp, cluster_frame_list)
               else
                 let frame_n_kp = getKp frame_cluster
                 in (all_frame_desc @ f_n_desc,
                     all_frame_kp @ frame_n_kp,
                     cluster_frame_list @
                       replicate (length frame_n_kp) (getId frame_cluster)))
       (getLdb (c_cluster st), getKp (c_cluster st),
        replicate (length (getKp (c_cluster st))) (getId (c_cluster st)))
       (getFrameVertices E (graph st) (getFrameId (c_cluster st)))"

text \<open>Line 290.\<close>

definition matches_2 ::
  "('f, 't, 'g, 'b) env \<Rightarrow> ('f, 't, 'g, 'b) LoopClosing \<Rightarrow> ('f, 't) Cluster \<Rightarrow> DMatch list" where
  "matches_2 E st candidate =
     ratioMatching E (fst (frame_pool E st)) (fst (candidate_pool E st candidate))"

text \<open>
  Lines 300 to 307, for one match: the keypoint of the frame, the world point and the
  keypoint of the candidate, and the two cluster identifiers.
\<close>

definition store_matching ::
  "'f KeyPoint list \<Rightarrow> 'f Point3f list \<Rightarrow> 'f KeyPoint list \<Rightarrow> int list \<Rightarrow> int list \<Rightarrow> DMatch \<Rightarrow>
     ('f Point2f \<times> 'f Point3f \<times> 'f Point2f \<times> int \<times> int) option" where
  "store_matching all_frame_kp all_candidate_points all_candidate_kp cluster_frame_list
       cluster_candidate_list m =
     do {
       k \<leftarrow> elem_at all_frame_kp (queryIdx m);
       p \<leftarrow> elem_at all_candidate_points (trainIdx m);
       ck \<leftarrow> elem_at all_candidate_kp (trainIdx m);
       f \<leftarrow> elem_at cluster_frame_list (queryIdx m);
       c \<leftarrow> elem_at cluster_candidate_list (trainIdx m);
       Some (pt k, p, pt ck, f, c)
     }"

text \<open>Lines 346 to 357.\<close>

fun find_pair :: "(int \<times> int) list \<Rightarrow> int \<times> int \<Rightarrow> nat option" where
  "find_pair [] p = None"
| "find_pair (q # qs) p = (if q = p then Some 0 else map_option Suc (find_pair qs p))"

text \<open>
  Lines 327 to 369: the inliers per pair of clusters. The keyframes of the candidates
  (lines 331 to 344) are used for the image only.
\<close>

fun inliers_per_cluster_pair ::
  "int list \<Rightarrow> int list \<Rightarrow> int list \<Rightarrow> (int \<times> int) list \<times> int list \<Rightarrow>
     ((int \<times> int) list \<times> int list) option" where
  "inliers_per_cluster_pair frame_matchings candidate_matchings [] acc = Some acc"
| "inliers_per_cluster_pair frame_matchings candidate_matchings (i # inliers)
       (cluster_pairs, inliers_per_pair) =
     (case (elem_at frame_matchings i, elem_at candidate_matchings i) of
        (Some frame_cluster, Some candidate_cluster) \<Rightarrow>
          (case find_pair cluster_pairs (frame_cluster, candidate_cluster) of
             Some idx \<Rightarrow>
               inliers_per_cluster_pair frame_matchings candidate_matchings inliers
                 (cluster_pairs, inliers_per_pair[idx := inliers_per_pair ! idx + 1])
           | None \<Rightarrow>
               inliers_per_cluster_pair frame_matchings candidate_matchings inliers
                 (cluster_pairs @ [(frame_cluster, candidate_cluster)], inliers_per_pair @ [1]))
      | _ \<Rightarrow> None)"

text \<open>Lines 371 to 389: the edges, on the graph and on the list of loop closures.\<close>

fun add_edges ::
  "('f, 't::{times,inverse}, 'g, 'b) env \<Rightarrow> 't \<Rightarrow> ((int \<times> int) \<times> int) list \<Rightarrow>
     'g \<times> (int \<times> int) list \<Rightarrow> 'g \<times> (int \<times> int) list" where
  "add_edges E estimated_transform [] (g, lc) = (g, lc)"
| "add_edges E estimated_transform ((pair, n) # rest) (g, lc) =
     (if 5 \<le> n then
        let candidate_cluster_pose = getVertexPose E g (snd pair);
            frame_cluster_pose_relative_to_camera = getVertexPoseRelativeToCamera E g (fst pair);
            edge_1 = inverse candidate_cluster_pose * estimated_transform *
                     frame_cluster_pose_relative_to_camera
        in add_edges E estimated_transform rest
             (addEdge E g (snd pair) (fst pair) edge_1 n, lc @ [(fst pair, snd pair)])
      else add_edges E estimated_transform rest (g, lc))"

text \<open>Lines 318 to 389, from the output of \<^verbatim>\<open>solvePnPRansac\<close> on.\<close>

definition close_loop_edges ::
  "('f, 't::{times,inverse}, 'g, 'b) env \<Rightarrow> int list \<Rightarrow> int list \<Rightarrow> int list \<Rightarrow> 'f Mat \<Rightarrow> 'f Mat \<Rightarrow>
     'g \<times> (int \<times> int) list \<Rightarrow> ('g \<times> (int \<times> int) list) option" where
  "close_loop_edges E frame_matchings candidate_matchings inliers rvec tvec glc =
     (let estimated_transform = inverse (buildTransformation E rvec tvec)
      in case inliers_per_cluster_pair frame_matchings candidate_matchings inliers ([], []) of
           None \<Rightarrow> None
         | Some (cluster_pairs, inliers_per_pair) \<Rightarrow>
             Some (add_edges E estimated_transform (zip cluster_pairs inliers_per_pair) glc))"

text \<open>Lines 205 to 212.\<close>

definition stage1 ::
  "('f, 't, 'g, 'b) env \<Rightarrow> ('f, 't, 'g, 'b) LoopClosing \<Rightarrow> ('f, 't) Cluster \<Rightarrow> error + int" where
  "stage1 E st candidate =
     (let matches_1 = ratioMatching E (getLdb (c_cluster st)) (getLdb candidate);
          size_c = int (length (getLdb (c_cluster st)));
          size_n = int (length (getLdb candidate))
      in percentage_of_matchings (length matches_1) size_c size_n)"

text \<open>Lines 294 to 314: the matchings of stage 3 and the motion estimated from them.\<close>

definition stage4 ::
  "('f, 't, 'g, 'b) env \<Rightarrow> ('f, 't, 'g, 'b) LoopClosing \<Rightarrow> ('f, 't) Cluster \<Rightarrow>
     error + (int list \<times> int list) \<times> (int list \<times> 'f Mat \<times> 'f Mat)" where
  "stage4 E st candidate =
     (case candidate_pool E st candidate of
        (all_candidate_desc, all_candidate_points, all_candidate_kp, cluster_candidate_list) \<Rightarrow>
      case frame_pool E st of
        (all_frame_desc, all_frame_kp, cluster_frame_list) \<Rightarrow>
      case those (map (store_matching all_frame_kp all_candidate_points all_candidate_kp
                         cluster_frame_list cluster_candidate_list) (matches_2 E st candidate)) of
        None \<Rightarrow> Inl IndexOutOfRange
      | Some matched \<Rightarrow>
          let matched_kp = map (\<lambda>(k, p, ck, f, c). k) matched;
              matched_points = map (\<lambda>(k, p, ck, f, c). p) matched;
              frame_matchings = map (\<lambda>(k, p, ck, f, c). f) matched;
              candidate_matchings = map (\<lambda>(k, p, ck, f, c). c) matched
          in Inr ((frame_matchings, candidate_matchings),
                  solvePnPRansac E (pnp_runs st) matched_points matched_kp
                    (getCameraMatrix E (graph st)) (LC_MAX_INLIERS E)))"

text \<open>
  Lines 200 to 538. The log, the image of the loop closure (lines 391 to 527) and its
  publication are left out but for the counter \<^verbatim>\<open>num_loop_closures_\<close>.
\<close>

definition closeLoopWithCluster ::
  "('f, 't::{times,inverse}, 'g, 'b) env \<Rightarrow> ('f, 't, 'g, 'b) LoopClosing \<Rightarrow> ('f, 't) Cluster \<Rightarrow>
     error + bool \<times> ('f, 't, 'g, 'b) LoopClosing" where
  "closeLoopWithCluster E st candidate =
     (case stage1 E st candidate of
        Inl e \<Rightarrow> Inl e
      | Inr m_percentage \<Rightarrow>
          if 35 < m_percentage then
            if LC_MIN_INLIERS E \<le> length (matches_2 E st candidate) then
              (case stage4 E st candidate of
                 Inl e \<Rightarrow> Inl e
               | Inr ((frame_matchings, candidate_matchings), (inliers, rvec, tvec)) \<Rightarrow>
                   let st1 = st\<lparr>pnp_runs := Suc (pnp_runs st)\<rparr>
                   in if LC_MIN_INLIERS E \<le> length inliers then
                        (case close_loop_edges E frame_matchings candidate_matchings inliers
                                rvec tvec (graph st1, lc_found st1) of
                           None \<Rightarrow> Inl IndexOutOfRange
                         | Some (g, lc) \<Rightarrow>
                             Inr (True,
                                  st1\<lparr>lc_found := lc,
                                      num_loop_closures := num_loop_closures st1 + 1,
                                      graph := Graph_update E g\<rparr>))
                      else Inr (False, st1))
            else Inr (False, st)
          else Inr (False, st))"

subsection \<open>The two searches and the driver loop\<close>

text \<open>
  Lines 136 to 146 and lines 157 to 167: the same loop over the candidates in both
  searches, up to the message that is logged.
\<close>

fun verify_candidates ::
  "('f, 't::{times,inverse}, 'g, 'b) env \<Rightarrow> ('f, 't, 'g, 'b) LoopClosing \<Rightarrow> int list \<Rightarrow>
     error + ('f, 't, 'g, 'b) LoopClosing" where
  "verify_candidates E st [] = Inr st"
| "verify_candidates E st (i # rest) =
     (let candidate = readCluster E st i
      in if length (getLdb candidate) = 0 then verify_candidates E st rest
         else case closeLoopWithCluster E st candidate of
                Inl e \<Rightarrow> Inl e
              | Inr (valid, st') \<Rightarrow> verify_candidates E st' rest)"

text \<open>Lines 132 to 147.\<close>

definition searchByProximity ::
  "('f, 't::{times,inverse}, 'g, 'b) env \<Rightarrow> ('f, 't, 'g, 'b) LoopClosing \<Rightarrow>
     error + ('f, 't, 'g, 'b) LoopClosing" where
  "searchByProximity E st =
     (let candidate_neighbors =
            findClosestVertices E (graph st) (getId (c_cluster st)) (getId (c_cluster st))
              (LC_DISCARD_WINDOW E) 3
      in verify_candidates E st candidate_neighbors)"

text \<open>Lines 149 to 168.\<close>

definition searchByHash ::
  "('f::linorder, 't::{times,inverse}, 'g, 'b) env \<Rightarrow> ('f, 't, 'g, 'b) LoopClosing \<Rightarrow>
     error + ('f, 't, 'g, 'b) LoopClosing" where
  "searchByHash E st =
     (case getCandidates E st (getId (c_cluster st)) of
        Inl e \<Rightarrow> Inl e
      | Inr hash_matching \<Rightarrow>
          if length hash_matching = 0 then Inr st
          else verify_candidates E st (map fst hash_matching))"

text \<open>
  Lines 26 to 41. \<^verbatim>\<open>fs::create_directory\<close>, called with the path only, returns
  \<^verbatim>\<open>true\<close> when it has created the directory and \<^verbatim>\<open>false\<close> when the directory
  exists already; when it cannot create the directory it throws. \<^verbatim>\<open>fs::remove_all\<close>
  empties the directory of the clusters.
\<close>

definition run_init ::
  "('f, 't, 'g, 'b) env \<Rightarrow> ('f, 't, 'g, 'b) LoopClosing \<Rightarrow> error + ('f, 't, 'g, 'b) LoopClosing" where
  "run_init E st =
     (case create_directory E ''haloc'' of
        Throws \<Rightarrow> Inl FilesystemException
      | Returns created1 \<Rightarrow>
          (case create_directory E ''loop_closures'' of
             Throws \<Rightarrow> Inl FilesystemException
           | Returns created2 \<Rightarrow>
               Inr (st\<lparr>files := Map.empty,
                        num_loop_closures := 0,
                        ros_errors := ros_errors st @
                          (if \<not> created1
                           then [''[Localization:] ERROR -> Impossible to create the loop_closing directory.'']
                           else []) @
                          (if \<not> created2
                           then [''[Localization:] ERROR -> Impossible to create the loop_closing directory.'']
                           else [])\<rparr>)))"

text \<open>Lines 60 to 68: one turn of the loop.\<close>

definition run_step ::
  "('f::linorder, 't::{times,inverse}, 'g, 'b) env \<Rightarrow> ('f, 't, 'g, 'b) LoopClosing \<Rightarrow>
     error + ('f, 't, 'g, 'b) LoopClosing" where
  "run_step E st =
     (if cluster_queue st \<noteq> [] then
        (case processNewCluster E st of
           Inl e \<Rightarrow> Inl e
         | Inr st1 \<Rightarrow>
             (case searchByProximity E st1 of
                Inl e \<Rightarrow> Inl e
              | Inr st2 \<Rightarrow> searchByHash E st2))
      else Inr st)"

text \<open>
  Lines 57 to 92: the loop runs as long as \<^verbatim>\<open>ros::ok()\<close> holds. The argument lists, for
  each of its turns, the clusters that \<^verbatim>\<open>addClusterToQueue\<close> (lines 95 to 99) has
  appended to the queue since the turn before.
\<close>

fun run_loop ::
  "('f::linorder, 't::{times,inverse}, 'g, 'b) env \<Rightarrow> ('f, 't, 'g, 'b) LoopClosing \<Rightarrow>
     ('f, 't) Cluster list list \<Rightarrow> error + ('f, 't, 'g, 'b) LoopClosing" where
  "run_loop E st [] = Inr st"
| "run_loop E st (arrived # turns) =
     (case run_step E (st\<lparr>cluster_queue := cluster_queue st @ arrived\<rparr>) of
        Inl e \<Rightarrow> Inl e
      | Inr st' \<Rightarrow> run_loop E st' turns)"

text \<open>Lines 23 to 93.\<close>

definition run ::
  "('f::linorder, 't::{times,inverse}, 'g, 'b) env \<Rightarrow> ('f, 't, 'g, 'b) LoopClosing \<Rightarrow>
     ('f, 't) Cluster list list \<Rightarrow> error + ('f, 't, 'g, 'b) LoopClosing" where
  "run E st turns =
     (case run_init E st of
        Inl e \<Rightarrow> Inl e
      | Inr st0 \<Rightarrow> run_loop E st0 turns)"

section \<open>Vocabulary of the properties\<close>

text \<open>
  Lines 329 and 330: the pair of clusters, of the frame and of the candidate, that an
  inlier supports; the pairs of all inliers, when every inlier is the index of a match.
\<close>

definition inlier_pair :: "int list \<Rightarrow> int list \<Rightarrow> int \<Rightarrow> (int \<times> int) option" where
  "inlier_pair frame_matchings candidate_matchings i =
     (case (elem_at frame_matchings i, elem_at candidate_matchings i) of
        (Some frame_cluster, Some candidate_cluster) \<Rightarrow> Some (frame_cluster, candidate_cluster)
      | _ \<Rightarrow> None)"

definition inlier_pairs :: "int list \<Rightarrow> int list \<Rightarrow> int list \<Rightarrow> (int \<times> int) list option" where
  "inlier_pairs frame_matchings candidate_matchings inliers =
     those (map (inlier_pair frame_matchings candidate_matchings) inliers)"

text \<open>The elements of a list without repetition, in the order of their first occurrence.\<close>

definition first_occurrences :: "'a list \<Rightarrow> 'a list" where
  "first_occurrences xs = rev (remdups (rev xs))"

text \<open>
  The invariant of section 3 of the specification: the keypoints and the points of a
  cluster are row-aligned with its descriptors. It is stated for a cluster and for the
  files of the store.
\<close>

definition aligned :: "('f, 't) Cluster \<Rightarrow> bool" where
  "aligned c =
     (length (getKp c) = length (getLdb c) \<and> length (getPoints c) = length (getLdb c))"

definition store_aligned :: "('f, 't, 'g, 'b) LoopClosing \<Rightarrow> bool" where
  "store_aligned st =
     (\<forall>i y. files st i = Some (Yml y) \<longrightarrow>
        length (yml_kp y) = length (yml_desc y) \<and> length (yml_points y) = length (yml_desc y))"

text \<open>
  What the callers expect of OpenCV: a match pairs a row of the first matrix with a row
  of the second, and an inlier is the index of one of the points given.
\<close>

definition matches_in_range :: "('f, 't, 'g, 'b) env \<Rightarrow> bool" where
  "matches_in_range E =
     (\<forall>d1 d2. \<forall>m\<in>set (ratioMatching E d1 d2).
        0 \<le> queryIdx m \<and> queryIdx m < int (length d1) \<and>
        0 \<le> trainIdx m \<and> trainIdx m < int (length d2))"

definition inliers_in_range :: "('f, 't, 'g, 'b) env \<Rightarrow> bool" where
  "inliers_in_range E =
     (\<forall>runs points kps camera_matrix max_inliers.
        \<forall>i\<in>set (fst (solvePnPRansac E runs points kps camera_matrix max_inliers)).
          0 \<le> i \<and> i < int (length points))"

section \<open>Scenarios\<close>

text \<open>
  A pose graph that records the edges it is given and counts its updates, transforms
  that are non-zero rationals, a matcher that pairs the rows of two descriptor matrices
  in their order. The neighbours of a vertex, the vertices of a frame and the inliers
  that the motion estimation finds among a number of matches are arguments.
\<close>

type_synonym scenario_graph = "(int \<times> int \<times> rat \<times> int) list \<times> nat"

definition scenario_env ::
  "(int \<Rightarrow> int list) \<Rightarrow> (int \<Rightarrow> int list) \<Rightarrow> (nat \<Rightarrow> int list) \<Rightarrow> bool call \<Rightarrow>
     (rat, rat, scenario_graph, bool) env" where
  "scenario_env closest frame_vertices inliers_among created =
     \<lparr>LC_DISCARD_WINDOW = 2, LC_MIN_INLIERS = 6, LC_MAX_INLIERS = 80, LC_NEIGHBORS = 5,
      ratioMatching = (\<lambda>d1 d2.
        map (\<lambda>i. \<lparr>queryIdx = int i, trainIdx = int i\<rparr>) [0..<min (length d1) (length d2)]),
      solvePnPRansac = (\<lambda>runs points kps camera_matrix max_inliers.
        (inliers_among (length points), [[0, 0, 0]], [[0, 0, 2]])),
      buildTransformation = (\<lambda>rvec tvec. 2),
      transformPoint = (\<lambda>p t. p),
      findClosestVertices = (\<lambda>g vertex_id window_center window best_n.
        take (nat best_n) (closest vertex_id)),
      getFrameVertices = (\<lambda>g frame_id. frame_vertices frame_id),
      getVertexPose = (\<lambda>g v. of_int (v + 2)),
      getVertexPoseRelativeToCamera = (\<lambda>g v. 3),
      getVertexCameraPose = (\<lambda>g v. 1),
      getCameraMatrix = (\<lambda>g. [[1, 0, 0], [0, 1, 0], [0, 0, 1]]),
      addEdge = (\<lambda>g a b t w. (fst g @ [(a, b, t, w)], snd g)),
      Graph_update = (\<lambda>g. (fst g, Suc (snd g))),
      isInitialized = (\<lambda>b. b),
      hash_init = (\<lambda>b sift. True),
      getHash = (\<lambda>b sift. [of_nat (length sift)]),
      hash_match = (\<lambda>b h1 h2. - \<bar>sum_list h1 - sum_list h2\<bar>),
      create_directory = (\<lambda>path. created),
      default_pose = 1\<rparr>"

text \<open>Every match is an inlier.\<close>

definition all_inliers :: "nat \<Rightarrow> int list" where
  "all_inliers n = map int [0..<n]"

text \<open>A cluster of \<open>n\<close> features.\<close>

definition scenario_cluster :: "int \<Rightarrow> int \<Rightarrow> nat \<Rightarrow> (rat, rat) Cluster" where
  "scenario_cluster i f n =
     \<lparr>getId = i, getFrameId = f, getCameraPose = 1,
      getKp = replicate n \<lparr>pt = (0, 0), kp_size = 1, kp_angle = 0, kp_response = 0,
                           kp_octave = 0, kp_class_id = - 1\<rparr>,
      getLdb = replicate n [0], getSift = replicate n [0], getPoints = replicate n (0, 0, 1)\<rparr>"

definition scenario_yml :: "(rat, rat) Cluster \<Rightarrow> int \<times> rat yml_file" where
  "scenario_yml c =
     (getId c, Yml \<lparr>yml_frame_id = getFrameId c, yml_kp = getKp c, yml_desc = getLdb c,
                    yml_points = getPoints c\<rparr>)"

text \<open>
  A state with a current cluster, the clusters that are stored, the hash table and the
  loop closures found so far.
\<close>

definition scenario_state ::
  "(rat, rat) Cluster \<Rightarrow> (rat, rat) Cluster list \<Rightarrow> (int \<times> rat list) list \<Rightarrow> (int \<times> int) list \<Rightarrow>
     (rat, rat, scenario_graph, bool) LoopClosing" where
  "scenario_state c stored table found =
     \<lparr>c_cluster = c, cluster_queue = [], hash = True, hash_table = table, lc_found = found,
      num_loop_closures = 0, graph = ([], 0), files = map_of (map scenario_yml stored),
      pnp_runs = 0, ros_errors = []\<rparr>"

text \<open>
  Nine clusters have been processed; the current one is cluster 8, and a loop closure of
  cluster 8 with cluster 3 has been found.
\<close>

definition hash_scenario :: "(rat, rat, scenario_graph, bool) LoopClosing" where
  "hash_scenario =
     scenario_state (scenario_cluster 8 8 4) []
       [(0, [5]), (1, [1]), (2, [7]), (3, [3]), (4, [4]), (5, [9]), (6, [2]), (7, [6]), (8, [4])]
       [(8, 3)]"


text \<open>Neither neighbours nor other clusters of the frame; the directories are created.\<close>

definition quiet_env :: "(rat, rat, scenario_graph, bool) env" where
  "quiet_env = scenario_env (\<lambda>v. []) (\<lambda>f. []) all_inliers (Returns True)"

text \<open>
  The clusters \<open>0, \<dots>, n - 1\<close> have been processed, cluster \<open>n - 1\<close> last; no loop closure
  has been found; the clusters in \<open>queue\<close> wait.
\<close>

definition history_scenario ::
  "nat \<Rightarrow> (rat, rat) Cluster list \<Rightarrow> (rat, rat, scenario_graph, bool) LoopClosing" where
  "history_scenario n queue =
     (scenario_state (scenario_cluster (int n - 1) (int n - 1) 4) []
        (map (\<lambda>i. (int i, [of_nat i])) [0..<n]) [])\<lparr>cluster_queue := queue\<rparr>"

text \<open>
  Cluster 10 of frame 5 is the current cluster and has ten features; so has the stored
  cluster 1, its only neighbour.
\<close>

definition single_env :: "(rat, rat, scenario_graph, bool) env" where
  "single_env =
     scenario_env (\<lambda>v. if v = 10 then [1] else []) (\<lambda>f. if f = 5 then [10] else [])
       all_inliers (Returns True)"

definition single_scenario :: "(rat, rat, scenario_graph, bool) LoopClosing" where
  "single_scenario =
     scenario_state (scenario_cluster 10 5 10) [scenario_cluster 10 5 10, scenario_cluster 1 0 10]
       [] []"

text \<open>The same, with three inliers only (scenario A of the specification).\<close>

definition few_inliers_env :: "(rat, rat, scenario_graph, bool) env" where
  "few_inliers_env =
     scenario_env (\<lambda>v. if v = 10 then [1] else []) (\<lambda>f. if f = 5 then [10] else [])
       (\<lambda>n. [0, 1, 2]) (Returns True)"

text \<open>
  Frame 5 has the clusters 10, the current one, and 11, of ten features each; the
  candidate is cluster 1, of twenty features. Six matches are inliers, three with
  features of cluster 10 and three with features of cluster 11.
\<close>

definition split_env :: "(rat, rat, scenario_graph, bool) env" where
  "split_env =
     scenario_env (\<lambda>v. if v = 10 then [1] else []) (\<lambda>f. if f = 5 then [10, 11] else [])
       (\<lambda>n. [0, 1, 2, 10, 11, 12]) (Returns True)"

definition split_scenario :: "(rat, rat, scenario_graph, bool) LoopClosing" where
  "split_scenario =
     scenario_state (scenario_cluster 10 5 10)
       [scenario_cluster 10 5 10, scenario_cluster 11 5 10, scenario_cluster 1 0 20] [] []"

text \<open>
  The current cluster 10 has twenty features and is close to the clusters 1 and 2, of
  ten features each, which are neighbours of each other.
\<close>

definition near_env :: "(rat, rat, scenario_graph, bool) env" where
  "near_env =
     scenario_env (\<lambda>v. if v = 10 then [1, 2] else if v = 1 then [2] else if v = 2 then [1] else [])
       (\<lambda>f. if f = 5 then [10] else []) all_inliers (Returns True)"

definition near_scenario :: "(rat, rat, scenario_graph, bool) LoopClosing" where
  "near_scenario =
     scenario_state (scenario_cluster 10 5 20)
       [scenario_cluster 10 5 20, scenario_cluster 1 0 10, scenario_cluster 2 1 10] [] []"

text \<open>What a test observes of a verification and of a search.\<close>

definition observe_verification ::
  "error + bool \<times> ('f, 't, 'g, 'b) LoopClosing \<Rightarrow> error + bool \<times> 'g \<times> (int \<times> int) list \<times> nat" where
  "observe_verification r =
     map_sum id (\<lambda>(valid, st'). (valid, graph st', lc_found st', pnp_runs st')) r"

definition observe_search ::
  "error + ('f, 't, 'g, 'b) LoopClosing \<Rightarrow> error + 'g \<times> (int \<times> int) list \<times> nat" where
  "observe_search r = map_sum id (\<lambda>st'. (graph st', lc_found st', pnp_runs st')) r"

text \<open>Nothing has been processed.\<close>

definition startup_scenario :: "(rat, rat, scenario_graph, bool) LoopClosing" where
  "startup_scenario = (scenario_state (scenario_cluster 0 0 0) [] [] [])\<lparr>hash := False\<rparr>"

text \<open>
  Eleven clusters have been processed, cluster 10 last, and none of their files is in
  the store.
\<close>

definition unstored_scenario :: "(rat, rat, scenario_graph, bool) LoopClosing" where
  "unstored_scenario =
     scenario_state (scenario_cluster 10 5 20) [] (map (\<lambda>i. (int i, [of_nat i])) [0..<11]) []"


text \<open>The storage is unwritable: \<^verbatim>\<open>fs::create_directory\<close> throws.\<close>

definition throwing_env :: "(rat, rat, scenario_graph, bool) env" where
  "throwing_env = scenario_env (\<lambda>v. []) (\<lambda>f. []) all_inliers Throws"

section \<open>Properties\<close>

subsection \<open>The percentage of matchings\<close>

lemma c_round_nonneg: "0 \<le> x \<Longrightarrow> c_round x = \<lfloor>x + 1 / 2\<rfloor>"
  by (simp add: c_round_def)

lemma c_round_near:
  assumes "0 \<le> x"
  shows "\<bar>of_int (c_round x) - x\<bar> \<le> 1 / 2"
proof -
  have below: "of_int \<lfloor>x + 1 / 2\<rfloor> \<le> x + 1 / 2"
    by (rule of_int_floor_le)
  have above: "x + 1 / 2 < of_int \<lfloor>x + 1 / 2\<rfloor> + 1"
    by linarith
  from below above show ?thesis
    unfolding c_round_nonneg [OF assms] by linarith
qed

lemma c_round_le_100: "0 \<le> x \<Longrightarrow> x \<le> 100 \<Longrightarrow> c_round x \<le> 100"
  by (simp add: c_round_def floor_le_iff)

text \<open>
  Claim C4, as the code has it. For two clusters with descriptors, the percentage of
  stage 1 is \<open>100 * matches / min (rows C) (rows N)\<close> rounded to the nearest integer
  (it is an \<^verbatim>\<open>int\<close>), at most one half away from the quotient. It is at most 100
  when there are no more matches than rows in the smaller of the two descriptor
  matrices; the code does not bound it otherwise.
\<close>

theorem percentage_of_matchings_rounded:
  assumes "0 < size_c" and "0 < size_n"
  shows "percentage_of_matchings n size_c size_n =
           Inr \<lfloor>100 * of_nat n / of_int (min size_c size_n) + 1 / 2 :: rat\<rfloor> \<and>
         \<bar>of_int \<lfloor>100 * of_nat n / of_int (min size_c size_n) + 1 / 2 :: rat\<rfloor> -
            100 * of_nat n / (of_int (min size_c size_n) :: rat)\<bar> \<le> 1 / 2 \<and>
         (int n \<le> min size_c size_n \<longrightarrow>
            \<lfloor>100 * of_nat n / of_int (min size_c size_n) + 1 / 2 :: rat\<rfloor> \<le> 100)"
proof -
  let ?x = "100 * of_nat n / (of_int (min size_c size_n) :: rat)"
  have m: "0 < min size_c size_n"
    using assms by simp
  then have x0: "0 \<le> ?x"
    by simp
  have le: "?x \<le> 100" if "int n \<le> min size_c size_n"
  proof -
    from that have "(of_nat n :: rat) \<le> of_int (min size_c size_n)"
      by (metis of_int_le_iff of_int_of_nat_eq)
    with m show ?thesis
      by (simp add: pos_divide_le_eq)
  qed
  have "percentage_of_matchings n size_c size_n = Inr (c_round ?x)"
    using assms by (auto simp: percentage_of_matchings_def min_def)
  moreover have "c_round ?x = \<lfloor>?x + 1 / 2\<rfloor>"
    by (rule c_round_nonneg [OF x0])
  ultimately show ?thesis
    using c_round_near [OF x0] c_round_le_100 [OF x0] le by auto
qed

text \<open>Scenario A of the specification: 40 matches between two clusters of 100 rows.\<close>

theorem percentage_of_matchings_rounded_witness:
  "(0::int) < 100 \<and> int 40 \<le> min 100 100 \<and>
   percentage_of_matchings 40 100 100 = Inr 40 \<and> (40::int) \<le> 100"
  using percentage_of_matchings_rounded [of 100 100 40] by (simp add: floor_eq_iff)

text \<open>
  Claim C4 as stated fails: 20 matches of the 30 rows of the current cluster against a
  candidate of 12 rows give 167, which is neither the quotient \<open>500 / 3\<close> nor below 100.
\<close>

theorem percentage_of_matchings_exceeds_100:
  "percentage_of_matchings 20 30 12 = Inr 167 \<and>
   (of_int 167 :: rat) \<noteq> 100 * of_nat 20 / of_int (min 30 12) \<and>
   \<not> (167::int) \<le> 100"
  by (simp add: percentage_of_matchings_def c_round_def floor_eq_iff)

subsection \<open>The hash search\<close>

lemma mset_sort_insert: "mset (sort_insert cmp x ys) = add_mset x (mset ys)"
  by (induction ys) auto

lemma mset_std_sort: "mset (std_sort cmp xs) = mset xs"
  by (induction xs) (auto simp: std_sort_def mset_sort_insert)

lemma set_std_sort: "set (std_sort cmp xs) = set xs"
  by (metis mset_std_sort set_mset_mset)

lemma length_std_sort: "length (std_sort cmp xs) = length xs"
  by (metis mset_std_sort size_mset)

lemma set_sort_insert: "set (sort_insert cmp x ys) = insert x (set ys)"
  by (metis mset_sort_insert set_mset_mset set_mset_add_mset_insert)

lemma sorted_sort_insert:
  "sorted_wrt (\<lambda>a b. snd b \<le> snd a) ys \<Longrightarrow>
   sorted_wrt (\<lambda>a b. snd b \<le> snd a) (sort_insert sortByMatching x ys)"
  by (induction ys) (auto simp: sortByMatching_def set_sort_insert)

lemma sorted_std_sort: "sorted_wrt (\<lambda>a b. snd b \<le> snd a) (std_sort sortByMatching xs)"
  by (induction xs) (auto simp: std_sort_def sorted_sort_insert)

lemma no_candidates_iff:
  "i \<in> set (no_candidates lc q) \<longleftrightarrow> (q, i) \<in> set lc \<or> (i, q) \<in> set lc"
  by (induction lc) (auto simp: no_candidates_def)

lemma sorted_wrt_take_drop:
  "sorted_wrt P xs \<Longrightarrow> x \<in> set (take n xs) \<Longrightarrow> y \<in> set (drop n xs) \<Longrightarrow> P x y"
  by (metis append_take_drop_id sorted_wrt_append)


lemma elem_at_Some: "0 \<le> i \<Longrightarrow> i < int (length v) \<Longrightarrow> elem_at v i = Some (v ! nat i)"
  by (simp add: elem_at_def)

lemma eligible_iff:
  "e \<in> set (eligible E st q) \<longleftrightarrow>
     e \<in> set (hash_table st) \<and> \<not> in_discard_window q (LC_DISCARD_WINDOW E) (fst e) \<and>
     fst e \<noteq> q \<and> (q, fst e) \<notin> set (lc_found st) \<and> (fst e, q) \<notin> set (lc_found st)"
  by (auto simp: eligible_def no_candidates_iff)

lemma top5:
  fixes xs :: "(int \<times> 'f::linorder) list"
  defines "cs \<equiv> take 5 (std_sort sortByMatching xs)"
  shows "length cs \<le> 5" "length cs = min 5 (length xs)"
    "sorted_wrt (\<lambda>a b. snd b \<le> snd a) cs" "set cs \<subseteq> set xs"
    "\<forall>e\<in>set xs. e \<in> set cs \<or> (\<forall>c\<in>set cs. snd e \<le> snd c)"
proof -
  let ?s = "std_sort sortByMatching xs"
  show "length cs \<le> 5" by (simp add: cs_def)
  show "length cs = min 5 (length xs)" by (simp add: cs_def length_std_sort min.commute)
  have srt: "sorted_wrt (\<lambda>a b. snd b \<le> snd a) ?s" by (rule sorted_std_sort)
  then show "sorted_wrt (\<lambda>a b. snd b \<le> snd a) cs"
    unfolding cs_def by (metis append_take_drop_id sorted_wrt_append)
  show "set cs \<subseteq> set xs"
    unfolding cs_def using set_take_subset [of 5 ?s] by (simp add: set_std_sort)
  show "\<forall>e\<in>set xs. e \<in> set cs \<or> (\<forall>c\<in>set cs. snd e \<le> snd c)"
  proof
    fix e assume "e \<in> set xs"
    then have "e \<in> set ?s" by (simp add: set_std_sort)
    then have "e \<in> set (take 5 ?s) \<union> set (drop 5 ?s)"
      by (metis append_take_drop_id set_append)
    then have "e \<in> set cs \<or> e \<in> set (drop 5 ?s)" by (simp add: cs_def)
    then show "e \<in> set cs \<or> (\<forall>c\<in>set cs. snd e \<le> snd c)"
      using sorted_wrt_take_drop [OF srt] unfolding cs_def by blast
  qed
qed

lemma window_500: "in_discard_window 500 50 i \<longleftrightarrow> 451 \<le> i \<and> i \<le> 549"
  by (auto simp: in_discard_window_def)

lemma length_hash_scenario: "length (hash_table hash_scenario) = 9"
  by (simp add: hash_scenario_def scenario_state_def)

lemma window_quiet_env: "LC_DISCARD_WINDOW quiet_env = 2"
  by (simp add: quiet_env_def scenario_env_def)

lemma length_history_scenario: "length (hash_table (history_scenario n queue)) = n"
  by (simp add: history_scenario_def scenario_state_def)

lemma dense_history_scenario: "dense_ids (hash_table (history_scenario n queue))"
  by (simp add: history_scenario_def scenario_state_def dense_ids_def comp_def)

lemma found_history_scenario: "lc_found (history_scenario n queue) = []"
  by (simp add: history_scenario_def scenario_state_def)

lemma dense_ids_nth: "dense_ids t \<longleftrightarrow> (\<forall>i<length t. fst (t ! i) = int i)"
proof -
  have "map fst t = map int [0..<length t] \<longleftrightarrow>
        (\<forall>i<length t. map fst t ! i = map int [0..<length t] ! i)"
    by (subst list_eq_iff_nth_eq) simp
  then show ?thesis by (simp add: dense_ids_def)
qed

text \<open>
  Claim C5. For a query within the hash table, and for every query when the table has at
  most \<open>W\<close> entries, \<^verbatim>\<open>getCandidates\<close> returns at most five
  candidates, ordered by descending similarity. Each is an entry of the hash table
  outside the open interval \<open>(q - W, q + W)\<close>, is not the query, and has no loop closure
  with the query in either orientation. When the table has more than \<open>W\<close> entries, the
  candidates are five of the matchings of the entries that pass these filters, or all
  when there are fewer, and every matching left out is no more similar than every
  candidate. For \<open>q = 500\<close> and \<open>W = 50\<close> the window is the identifiers from 451 to 549.
\<close>

theorem getCandidates_top5:
  fixes E :: "('f::linorder, 't, 'g, 'b) env"
  assumes "int (length (hash_table st)) \<le> LC_DISCARD_WINDOW E \<or>
           0 \<le> q \<and> q < int (length (hash_table st))"
  shows "\<exists>candidates. getCandidates E st q = Inr candidates \<and>
     length candidates \<le> 5 \<and>
     sorted_wrt (\<lambda>a b. snd b \<le> snd a) candidates \<and>
     (\<forall>c\<in>set candidates.
        fst c \<in> fst ` set (hash_table st) \<and>
        \<not> in_discard_window q (LC_DISCARD_WINDOW E) (fst c) \<and> fst c \<noteq> q \<and>
        (q, fst c) \<notin> set (lc_found st) \<and> (fst c, q) \<notin> set (lc_found st)) \<and>
     (LC_DISCARD_WINDOW E < int (length (hash_table st)) \<longrightarrow>
        length candidates = min 5 (length (eligible E st q)) \<and>
        set candidates \<subseteq> set (all_matchings E st q (snd (hash_table st ! nat q))) \<and>
        (\<forall>e\<in>set (all_matchings E st q (snd (hash_table st ! nat q))).
           e \<in> set candidates \<or> (\<forall>c\<in>set candidates. snd e \<le> snd c))) \<and>
     (\<forall>i. in_discard_window 500 50 i \<longleftrightarrow> 451 \<le> i \<and> i \<le> 549)"
proof (cases "int (length (hash_table st)) \<le> LC_DISCARD_WINDOW E")
  case True
  then have "getCandidates E st q = Inr []" by (simp add: getCandidates_def)
  with True show ?thesis by (simp add: window_500)
next
  case False
  let ?xs = "all_matchings E st q (snd (hash_table st ! nat q))"
  let ?cs = "take 5 (std_sort sortByMatching ?xs)"
  have g: "getCandidates E st q = Inr ?cs"
    using False assms by (auto simp: getCandidates_def elem_at_Some)
  have len: "length ?xs = length (eligible E st q)" by (simp add: all_matchings_def)
  have el: "fst c \<in> fst ` set (hash_table st) \<and>
        \<not> in_discard_window q (LC_DISCARD_WINDOW E) (fst c) \<and> fst c \<noteq> q \<and>
        (q, fst c) \<notin> set (lc_found st) \<and> (fst c, q) \<notin> set (lc_found st)" if "c \<in> set ?cs" for c
  proof -
    from that top5(4) [of ?xs] have "c \<in> set ?xs" by blast
    then obtain e where "e \<in> set (eligible E st q)" "fst c = fst e"
      by (auto simp: all_matchings_def)
    then show ?thesis using eligible_iff [of e E st q] by auto
  qed
  show ?thesis
    using g top5(1) [of ?xs] top5(2) [of ?xs] top5(3) [of ?xs] top5(4) [of ?xs] top5(5) [of ?xs]
      el len window_500
    by (intro exI [of _ ?cs]) simp
qed

text \<open>Cluster 8 of nine, with window 2 and a loop closure with cluster 3.\<close>

theorem getCandidates_top5_witness:
  "(0::int) \<le> 8 \<and> 8 < int (length (hash_table hash_scenario)) \<and>
   LC_DISCARD_WINDOW quiet_env < int (length (hash_table hash_scenario)) \<and>
   getCandidates quiet_env hash_scenario 8 = Inr [(4, 0), (0, - 1), (6, - 2), (2, - 3), (1, - 3)] \<and>
   map fst (eligible quiet_env hash_scenario 8) = [0, 1, 2, 4, 5, 6] \<and>
   (\<exists>candidates. getCandidates quiet_env hash_scenario 8 = Inr candidates \<and>
      length candidates = min 5 (length (eligible quiet_env hash_scenario 8)) \<and>
      sorted_wrt (\<lambda>a b. snd b \<le> snd a) candidates)"
proof -
  have h1: "(0::int) \<le> 8" by simp
  have h2: "8 < int (length (hash_table hash_scenario))" by (simp add: length_hash_scenario)
  have h3: "LC_DISCARD_WINDOW quiet_env < int (length (hash_table hash_scenario))"
    by (simp add: length_hash_scenario window_quiet_env)
  have ev: "getCandidates quiet_env hash_scenario 8 =
      Inr [(4, 0), (0, - 1), (6, - 2), (2, - 3), (1, - 3)]"
    by code_simp
  have el: "map fst (eligible quiet_env hash_scenario 8) = [0, 1, 2, 4, 5, 6]"
    by code_simp
  from h1 h2 have "int (length (hash_table hash_scenario)) \<le> LC_DISCARD_WINDOW quiet_env \<or>
      (0::int) \<le> 8 \<and> 8 < int (length (hash_table hash_scenario))"
    by blast
  from getCandidates_top5 [OF this] h3
  have "\<exists>candidates. getCandidates quiet_env hash_scenario 8 = Inr candidates \<and>
      length candidates = min 5 (length (eligible quiet_env hash_scenario 8)) \<and>
      sorted_wrt (\<lambda>a b. snd b \<le> snd a) candidates"
    by blast
  with h1 h2 h3 ev el show ?thesis by blast
qed

text \<open>
  Claim C6, as the code has it. With at most \<open>W\<close> entries in the hash table (line 546
  compares with \<^verbatim>\<open><=\<close>) \<^verbatim>\<open>getCandidates\<close> returns the empty list, and
  \<^verbatim>\<open>searchByHash\<close> returns without an error and without a change. For the newest cluster
  of a table with the identifiers \<open>0, 1, 2, \<dots>\<close>, a positive window and no loop closure
  found for it, the list is empty in this case only.
\<close>

theorem getCandidates_empty_history:
  fixes E :: "('f::linorder, 't::{times,inverse}, 'g, 'b) env"
  shows "(int (length (hash_table st)) \<le> LC_DISCARD_WINDOW E \<longrightarrow>
      getCandidates E st q = Inr [] \<and>
      (q = getId (c_cluster st) \<longrightarrow> searchByHash E st = Inr st)) \<and>
   (dense_ids (hash_table st) \<and> q = int (length (hash_table st)) - 1 \<and>
    0 < LC_DISCARD_WINDOW E \<and> no_candidates (lc_found st) q = [] \<longrightarrow>
      (getCandidates E st q = Inr [] \<longleftrightarrow>
       int (length (hash_table st)) \<le> LC_DISCARD_WINDOW E))"
proof -
  have short: "getCandidates E st q = Inr []"
    if "int (length (hash_table st)) \<le> LC_DISCARD_WINDOW E"
    using that by (simp add: getCandidates_def)
  have long: "getCandidates E st q \<noteq> Inr []"
    if d: "dense_ids (hash_table st)" and q: "q = int (length (hash_table st)) - 1"
      and w: "0 < LC_DISCARD_WINDOW E" and n: "no_candidates (lc_found st) q = []"
      and l: "\<not> int (length (hash_table st)) \<le> LC_DISCARD_WINDOW E"
  proof -
    let ?t = "hash_table st"
    have len: "0 < length ?t" using l w by auto
    then have "?t ! 0 \<in> set ?t" by simp
    moreover have "fst (?t ! 0) = 0" using d len by (simp add: dense_ids_nth)
    ultimately have "?t ! 0 \<in> set (eligible E st q)"
      using q w l n by (simp add: eligible_def in_discard_window_def)
    then have ne: "eligible E st q \<noteq> []" by auto
    have inr: "0 \<le> q" "q < int (length ?t)" using q len by auto
    let ?xs = "all_matchings E st q (snd (?t ! nat q))"
    have "getCandidates E st q = Inr (take 5 (std_sort sortByMatching ?xs))"
      using l inr by (simp add: getCandidates_def elem_at_Some)
    moreover have "length (take 5 (std_sort sortByMatching ?xs)) \<noteq> 0"
      using ne by (simp add: length_std_sort all_matchings_def)
    ultimately show ?thesis by auto
  qed
  show ?thesis using short long by (auto simp: searchByHash_def)
qed

text \<open>Two and three clusters processed, with window 2.\<close>

theorem getCandidates_empty_history_witness:
  "int (length (hash_table (history_scenario 2 []))) \<le> LC_DISCARD_WINDOW quiet_env \<and>
   1 = getId (c_cluster (history_scenario 2 [])) \<and>
   getCandidates quiet_env (history_scenario 2 []) 1 = Inr [] \<and>
   searchByHash quiet_env (history_scenario 2 []) = Inr (history_scenario 2 []) \<and>
   dense_ids (hash_table (history_scenario 3 [])) \<and>
   2 = int (length (hash_table (history_scenario 3 []))) - 1 \<and>
   0 < LC_DISCARD_WINDOW quiet_env \<and>
   no_candidates (lc_found (history_scenario 3 [])) 2 = [] \<and>
   \<not> int (length (hash_table (history_scenario 3 []))) \<le> LC_DISCARD_WINDOW quiet_env \<and>
   getCandidates quiet_env (history_scenario 3 []) 2 \<noteq> Inr []"
proof -
  have a: "int (length (hash_table (history_scenario 2 []))) \<le> LC_DISCARD_WINDOW quiet_env"
    by (simp add: length_history_scenario window_quiet_env)
  have b: "1 = getId (c_cluster (history_scenario 2 []))"
    by (simp add: history_scenario_def scenario_state_def scenario_cluster_def)
  have c: "dense_ids (hash_table (history_scenario 3 [])) \<and>
      2 = int (length (hash_table (history_scenario 3 []))) - 1 \<and>
      0 < LC_DISCARD_WINDOW quiet_env \<and>
      no_candidates (lc_found (history_scenario 3 [])) 2 = []"
    by (simp add: length_history_scenario dense_history_scenario found_history_scenario window_quiet_env no_candidates_def)
  have d: "\<not> int (length (hash_table (history_scenario 3 []))) \<le> LC_DISCARD_WINDOW quiet_env"
    by (simp add: length_history_scenario window_quiet_env)
  from getCandidates_empty_history [of "history_scenario 2 []" quiet_env 1] a b
  have e: "getCandidates quiet_env (history_scenario 2 []) 1 = Inr [] \<and>
      searchByHash quiet_env (history_scenario 2 []) = Inr (history_scenario 2 [])"
    by blast
  from getCandidates_empty_history [of "history_scenario 3 []" quiet_env 2] c d
  have f: "getCandidates quiet_env (history_scenario 3 []) 2 \<noteq> Inr []"
    by blast
  from a b c d e f show ?thesis by blast
qed

text \<open>
  Claim C6 as stated fails: with exactly \<open>W = 2\<close> clusters processed, which is not
  fewer than \<open>W\<close>, the list is empty.
\<close>

theorem getCandidates_empty_at_window:
  "getCandidates quiet_env (history_scenario 2 []) 1 = Inr [] \<and>
   \<not> int (length (hash_table (history_scenario 2 []))) < LC_DISCARD_WINDOW quiet_env"
  by (simp add: getCandidates_def length_history_scenario window_quiet_env)







subsection \<open>Stage 6: the edges of a loop closure\<close>

lemma first_occurrences_snoc:
  "first_occurrences (xs @ [x]) = (if x \<in> set xs then first_occurrences xs else first_occurrences xs @ [x])"
  by (simp add: first_occurrences_def)

lemma set_first_occurrences: "set (first_occurrences xs) = set xs"
  by (simp add: first_occurrences_def)

lemma distinct_first_occurrences: "distinct (first_occurrences xs)"
  by (simp add: first_occurrences_def)

lemma find_pair_None: "find_pair cp p = None \<longleftrightarrow> p \<notin> set cp"
  by (induction cp) auto

lemma find_pair_Some: "find_pair cp p = Some idx \<Longrightarrow> idx < length cp \<and> cp ! idx = p"
  by (induction cp arbitrary: idx) (auto split: if_splits)

lemma count_update:
  assumes "distinct cp" and "idx < length cp" and "cp ! idx = p"
  shows "(map (\<lambda>q. int (count_list seen q)) cp)[idx := map (\<lambda>q. int (count_list seen q)) cp ! idx + 1]
         = map (\<lambda>q. int (count_list (seen @ [p]) q)) cp"
proof (rule nth_equalityI)
  show "length ((map (\<lambda>q. int (count_list seen q)) cp)[idx := map (\<lambda>q. int (count_list seen q)) cp ! idx + 1]) =
    length (map (\<lambda>q. int (count_list (seen @ [p]) q)) cp)" by simp
next
  fix j assume "j < length ((map (\<lambda>q. int (count_list seen q)) cp)[idx := map (\<lambda>q. int (count_list seen q)) cp ! idx + 1])"
  then have j: "j < length cp" by simp
  show "(map (\<lambda>q. int (count_list seen q)) cp)[idx := map (\<lambda>q. int (count_list seen q)) cp ! idx + 1] ! j =
    map (\<lambda>q. int (count_list (seen @ [p]) q)) cp ! j"
  proof (cases "j = idx")
    case True
    then show ?thesis using assms by simp
  next
    case False
    then have "cp ! j \<noteq> p" using assms j by (auto simp: nth_eq_iff_index_eq)
    then show ?thesis using False j assms by simp
  qed
qed

lemma inliers_per_cluster_pair_counts:
  assumes "inlier_pairs fm cm inliers = Some pairs"
  shows "inliers_per_cluster_pair fm cm inliers
           (first_occurrences seen, map (\<lambda>q. int (count_list seen q)) (first_occurrences seen)) =
         Some (first_occurrences (seen @ pairs),
               map (\<lambda>q. int (count_list (seen @ pairs) q)) (first_occurrences (seen @ pairs)))"
  using assms
proof (induction inliers arbitrary: seen pairs)
  case Nil
  then show ?case by (simp add: inlier_pairs_def)
next
  case (Cons i inliers)
  from Cons.prems obtain p ps where p: "inlier_pair fm cm i = Some p"
    and ps: "inlier_pairs fm cm inliers = Some ps" and pairs: "pairs = p # ps"
    by (auto simp: inlier_pairs_def split: option.splits)
  obtain f c where fc: "p = (f, c)" by (cases p)
  from p fc have e: "elem_at fm i = Some f" "elem_at cm i = Some c"
    by (auto simp: inlier_pair_def split: option.splits)
  have step: "inliers_per_cluster_pair fm cm (i # inliers)
           (first_occurrences seen, map (\<lambda>q. int (count_list seen q)) (first_occurrences seen)) =
        inliers_per_cluster_pair fm cm inliers
           (first_occurrences (seen @ [p]), map (\<lambda>q. int (count_list (seen @ [p]) q)) (first_occurrences (seen @ [p])))"
  proof (cases "find_pair (first_occurrences seen) p")
    case None
    then have n: "p \<notin> set seen"
      by (simp add: find_pair_None set_first_occurrences)
    have lhs: "inliers_per_cluster_pair fm cm (i # inliers)
           (first_occurrences seen, map (\<lambda>q. int (count_list seen q)) (first_occurrences seen)) =
        inliers_per_cluster_pair fm cm inliers
           (first_occurrences seen @ [p],
            map (\<lambda>q. int (count_list seen q)) (first_occurrences seen) @ [1])"
      using None by (simp add: e fc)
    have h1: "first_occurrences (seen @ [p]) = first_occurrences seen @ [p]"
      using n by (simp add: first_occurrences_snoc)
    have "map (\<lambda>q. int (count_list (seen @ [p]) q)) (first_occurrences seen) =
        map (\<lambda>q. int (count_list seen q)) (first_occurrences seen)"
      using n by (intro map_cong) (auto simp: set_first_occurrences)
    moreover have "int (count_list (seen @ [p]) p) = 1"
      using n by (simp add: count_list_0_iff)
    ultimately have eq: "map (\<lambda>q. int (count_list (seen @ [p]) q)) (first_occurrences seen @ [p]) =
        map (\<lambda>q. int (count_list seen q)) (first_occurrences seen) @ [1]"
      by simp
    show ?thesis by (simp only: lhs h1 eq)
  next
    case (Some idx)
    from find_pair_Some [OF Some] have i: "idx < length (first_occurrences seen)"
      "first_occurrences seen ! idx = p" by auto
    then have m: "p \<in> set seen" by (metis nth_mem set_first_occurrences)
    have lhs: "inliers_per_cluster_pair fm cm (i # inliers)
           (first_occurrences seen, map (\<lambda>q. int (count_list seen q)) (first_occurrences seen)) =
        inliers_per_cluster_pair fm cm inliers
           (first_occurrences seen,
            (map (\<lambda>q. int (count_list seen q)) (first_occurrences seen))
              [idx := map (\<lambda>q. int (count_list seen q)) (first_occurrences seen) ! idx + 1])"
      using Some by (simp add: e fc)
    have h1: "first_occurrences (seen @ [p]) = first_occurrences seen"
      using m by (simp add: first_occurrences_snoc)
    show ?thesis
      by (simp only: lhs h1 count_update [OF distinct_first_occurrences i])
  qed
  from Cons.IH [OF ps, of "seen @ [p]"] step pairs show ?case by simp
qed

lemma add_edges_filter:
  "add_edges E est xs (g, lc) =
     (foldl (\<lambda>g (p, n). addEdge E g (snd p) (fst p)
               (inverse (getVertexPose E g (snd p)) * est * getVertexPoseRelativeToCamera E g (fst p)) n)
        g (filter (\<lambda>(p, n). 5 \<le> n) xs),
      lc @ map fst (filter (\<lambda>(p, n). 5 \<le> n) xs))"
  by (induction xs arbitrary: g lc) (auto simp: Let_def)

lemma close_loop_edges_eq:
  assumes "inlier_pairs frame_matchings candidate_matchings inliers = Some pairs"
  shows "close_loop_edges E frame_matchings candidate_matchings inliers rvec tvec (g, lc) =
     Some (foldl (\<lambda>g p. addEdge E g (snd p) (fst p)
                    (inverse (getVertexPose E g (snd p)) * inverse (buildTransformation E rvec tvec) *
                       getVertexPoseRelativeToCamera E g (fst p))
                    (int (count_list pairs p)))
             g (filter (\<lambda>p. 5 \<le> count_list pairs p) (first_occurrences pairs)),
           lc @ filter (\<lambda>p. 5 \<le> count_list pairs p) (first_occurrences pairs))"
proof -
  let ?cp = "first_occurrences pairs"
  let ?cnt = "\<lambda>q. int (count_list pairs q)"
  from inliers_per_cluster_pair_counts [OF assms, of "[]"]
  have ipp: "inliers_per_cluster_pair frame_matchings candidate_matchings inliers ([], []) =
      Some (?cp, map ?cnt ?cp)"
    by (simp add: first_occurrences_def)
  have z: "zip ?cp (map ?cnt ?cp) = map (\<lambda>p. (p, ?cnt p)) ?cp"
    by (simp add: zip_map2 zip_same_conv_map)
  have f: "filter (\<lambda>(p, n). 5 \<le> n) (map (\<lambda>p. (p, ?cnt p)) ?cp) =
      map (\<lambda>p. (p, ?cnt p)) (filter (\<lambda>p. 5 \<le> count_list pairs p) ?cp)"
    by (simp add: filter_map comp_def)
  show ?thesis
    by (simp add: close_loop_edges_def ipp add_edges_filter z f foldl_map comp_def)
qed

text \<open>
  Claim C3. When every inlier is the index of a match, the pairs of clusters are taken in
  the order of their first inlier, and exactly those with five inliers or more give an
  edge: \<^verbatim>\<open>addEdge\<close> is called from the cluster of the candidate to the cluster of the
  frame, with the transform \<open>inverse candidatePose * estimatedTransform * frameRelativePose\<close>,
  where \<open>estimatedTransform\<close> is the inverse of the transform built from the output of
  \<^verbatim>\<open>solvePnPRansac\<close>, and with the number of inliers of the pair as weight. The same
  pairs, frame first, are appended to the loop closures found.
\<close>

theorem close_loop_edges_per_pair:
  assumes "inlier_pairs frame_matchings candidate_matchings inliers = Some pairs"
  shows "close_loop_edges E frame_matchings candidate_matchings inliers rvec tvec (g, lc) =
     Some (foldl (\<lambda>g p. addEdge E g (snd p) (fst p)
                    (inverse (getVertexPose E g (snd p)) * inverse (buildTransformation E rvec tvec) *
                       getVertexPoseRelativeToCamera E g (fst p))
                    (int (count_list pairs p)))
             g (filter (\<lambda>p. 5 \<le> count_list pairs p) (first_occurrences pairs)),
           lc @ filter (\<lambda>p. 5 \<le> count_list pairs p) (first_occurrences pairs))"
  by (rule close_loop_edges_eq [OF assms])

text \<open>Eight inliers for the clusters 10 and 1, four for the clusters 11 and 1.\<close>

theorem close_loop_edges_per_pair_witness:
  "inlier_pairs [10, 10, 10, 10, 10, 10, 10, 10, 11, 11, 11, 11] [1, 1, 1, 1, 1, 1, 1, 1, 1, 1, 1, 1]
     [0, 1, 2, 3, 4, 5, 6, 7, 8, 9, 10, 11] =
     Some [(10, 1), (10, 1), (10, 1), (10, 1), (10, 1), (10, 1), (10, 1), (10, 1),
           (11, 1), (11, 1), (11, 1), (11, 1)] \<and>
   close_loop_edges quiet_env [10, 10, 10, 10, 10, 10, 10, 10, 11, 11, 11, 11]
     [1, 1, 1, 1, 1, 1, 1, 1, 1, 1, 1, 1] [0, 1, 2, 3, 4, 5, 6, 7, 8, 9, 10, 11]
     [[0, 0, 0]] [[0, 0, 2]] (([], 0), []) =
     Some (([(1, 10, 1 / 2, 8)], 0), [(10, 1)])"
proof -
  let ?pairs = "[(10, 1), (10, 1), (10, 1), (10, 1), (10, 1), (10, 1), (10, 1), (10, 1),
           (11, 1), (11, 1), (11, 1), (11::int, 1::int)]"
  have h: "inlier_pairs [10, 10, 10, 10, 10, 10, 10, 10, 11, 11, 11, 11]
     [1, 1, 1, 1, 1, 1, 1, 1, 1, 1, 1, 1] [0, 1, 2, 3, 4, 5, 6, 7, 8, 9, 10, 11] = Some ?pairs"
    by code_simp
  have e: "(foldl (\<lambda>g p. addEdge quiet_env g (snd p) (fst p)
                    (inverse (getVertexPose quiet_env g (snd p)) *
                       inverse (buildTransformation quiet_env [[0, 0, 0]] [[0, 0, 2]]) *
                       getVertexPoseRelativeToCamera quiet_env g (fst p))
                    (int (count_list ?pairs p)))
             ([], 0) (filter (\<lambda>p. 5 \<le> count_list ?pairs p) (first_occurrences ?pairs)),
           [] @ filter (\<lambda>p. 5 \<le> count_list ?pairs p) (first_occurrences ?pairs)) =
        (([(1, 10, 1 / 2, 8)], 0), [(10, 1)])"
    by code_simp
  from close_loop_edges_per_pair [OF h, of quiet_env "[[0, 0, 0]]" "[[0, 0, 2]]" "([], 0)" "[]"]
  show ?thesis unfolding e using h by simp
qed

subsection \<open>The geometric verification\<close>

lemma closeLoopWithCluster_outcome:
  assumes "closeLoopWithCluster E st candidate = Inr (valid, st')"
  shows "(valid \<longleftrightarrow>
           (\<exists>p. stage1 E st candidate = Inr p \<and> 35 < p) \<and>
           LC_MIN_INLIERS E \<le> length (matches_2 E st candidate) \<and>
           (\<exists>ms inliers rvec tvec. stage4 E st candidate = Inr (ms, inliers, rvec, tvec) \<and>
              LC_MIN_INLIERS E \<le> length inliers)) \<and>
         (\<not> valid \<longrightarrow> st' = st\<lparr>pnp_runs := pnp_runs st'\<rparr>) \<and>
         (valid \<longrightarrow>
           (\<exists>fm cm inliers rvec tvec g.
              stage4 E st candidate = Inr ((fm, cm), inliers, rvec, tvec) \<and>
              close_loop_edges E fm cm inliers rvec tvec (graph st, lc_found st) =
                Some (g, lc_found st') \<and>
              graph st' = Graph_update E g))"
  using assms
  by (auto simp: closeLoopWithCluster_def Let_def split: sum.splits if_splits option.splits prod.splits)

lemma foldl_invariant:
  assumes "P a" and "\<And>a x. P a \<Longrightarrow> P (f a x)"
  shows "P (foldl f a xs)"
  using assms by (induction xs arbitrary: a) auto

lemma length_getWorldPoints: "length (getWorldPoints E c) = length (getPoints c)"
  by (simp add: getWorldPoints_def)

lemma aligned_readCluster: "store_aligned st \<Longrightarrow> aligned (readCluster E st i)"
  by (auto simp: store_aligned_def aligned_def readCluster_def empty_Cluster_def
      split: option.splits yml_file.splits)

lemma candidate_pool_aligned:
  assumes "aligned candidate" and "store_aligned st"
  shows "case candidate_pool E st candidate of
           (d, pts, kps, ids) \<Rightarrow>
             length pts = length d \<and> length kps = length d \<and> length ids = length d"
  unfolding candidate_pool_def
proof (rule foldl_invariant, goal_cases)
  case 1
  from assms(1) show ?case by (simp add: aligned_def length_getWorldPoints)
next
  case (2 a j)
  from aligned_readCluster [OF assms(2), of E j] 2 show ?case
    by (auto simp: aligned_def length_getWorldPoints Let_def split: prod.splits)
qed

lemma frame_pool_aligned:
  assumes "aligned (c_cluster st)" and "store_aligned st"
  shows "case frame_pool E st of
           (d, kps, ids) \<Rightarrow> length kps = length d \<and> length ids = length d"
  unfolding frame_pool_def
proof (rule foldl_invariant, goal_cases)
  case 1
  from assms(1) show ?case by (simp add: aligned_def)
next
  case (2 a j)
  from aligned_readCluster [OF assms(2), of E j] 2 show ?case
    by (auto simp: aligned_def Let_def split: prod.splits)
qed

lemma those_map_Some:
  "(\<forall>x\<in>set xs. \<exists>y. f x = Some y) \<Longrightarrow> \<exists>ys. those (map f xs) = Some ys \<and> length ys = length xs"
  by (induction xs) auto

lemma stage4_returns:
  assumes "aligned (c_cluster st)" and "aligned candidate" and "store_aligned st"
    and "matches_in_range E"
  shows "\<exists>fm cm inliers rvec tvec. stage4 E st candidate = Inr ((fm, cm), inliers, rvec, tvec) \<and>
      length fm = length cm \<and>
      (inliers_in_range E \<longrightarrow> (\<forall>i\<in>set inliers. 0 \<le> i \<and> i < int (length fm)))"
proof -
  obtain cd cpts ckps cids where cp: "candidate_pool E st candidate = (cd, cpts, ckps, cids)"
    by (cases "candidate_pool E st candidate")
  obtain fd fkps fids where fp: "frame_pool E st = (fd, fkps, fids)"
    by (cases "frame_pool E st")
  from candidate_pool_aligned [OF assms(2,3), of E] cp
  have cl: "length cpts = length cd" "length ckps = length cd" "length cids = length cd" by auto
  from frame_pool_aligned [OF assms(1,3), of E] fp
  have fl: "length fkps = length fd" "length fids = length fd" by auto
  have "\<exists>y. store_matching fkps cpts ckps fids cids m = Some y"
    if "m \<in> set (matches_2 E st candidate)" for m
  proof -
    from that assms(4) have "0 \<le> queryIdx m \<and> queryIdx m < int (length fd) \<and>
        0 \<le> trainIdx m \<and> trainIdx m < int (length cd)"
      by (auto simp: matches_2_def matches_in_range_def cp fp)
    then have "store_matching fkps cpts ckps fids cids m =
        Some (pt (fkps ! nat (queryIdx m)), cpts ! nat (trainIdx m), pt (ckps ! nat (trainIdx m)),
              fids ! nat (queryIdx m), cids ! nat (trainIdx m))"
      by (simp add: store_matching_def elem_at_def cl fl)
    then show ?thesis ..
  qed
  then obtain matched where m: "those (map (store_matching fkps cpts ckps fids cids)
      (matches_2 E st candidate)) = Some matched"
    using those_map_Some [of "matches_2 E st candidate" "store_matching fkps cpts ckps fids cids"]
    by blast
  let ?pts = "map (\<lambda>(k, p, ck, f, c). p) matched"
  let ?r = "solvePnPRansac E (pnp_runs st) ?pts (map (\<lambda>(k, p, ck, f, c). k) matched)
     (getCameraMatrix E (graph st)) (LC_MAX_INLIERS E)"
  have s4: "stage4 E st candidate =
      Inr ((map (\<lambda>(k, p, ck, f, c). f) matched, map (\<lambda>(k, p, ck, f, c). c) matched), ?r)"
    by (simp add: stage4_def cp fp m)
  have "inliers_in_range E \<Longrightarrow> \<forall>i\<in>set (fst ?r). 0 \<le> i \<and> i < int (length matched)"
    unfolding inliers_in_range_def by (metis length_map)
  with s4 show ?thesis by (cases ?r) auto
qed

lemma inlier_pairs_Some:
  assumes "length fm = length cm" and "\<forall>i\<in>set inliers. 0 \<le> i \<and> i < int (length fm)"
  shows "\<exists>pairs. inlier_pairs fm cm inliers = Some pairs"
proof -
  have "\<forall>i\<in>set inliers. \<exists>y. inlier_pair fm cm i = Some y"
    using assms by (auto simp: inlier_pair_def elem_at_def)
  from those_map_Some [OF this] show ?thesis by (auto simp: inlier_pairs_def)
qed

lemma closeLoopWithCluster_returns:
  assumes "getLdb (c_cluster st) \<noteq> []" and "getLdb candidate \<noteq> []"
    and "aligned (c_cluster st)" and "aligned candidate" and "store_aligned st"
    and "matches_in_range E" and "inliers_in_range E"
  shows "\<exists>valid st'. closeLoopWithCluster E st candidate = Inr (valid, st')"
proof -
  from assms(1,2) have "min (int (length (getLdb (c_cluster st)))) (int (length (getLdb candidate))) \<noteq> 0"
    by (simp add: min_def)
  then obtain p where s1: "stage1 E st candidate = Inr p"
    by (simp add: stage1_def percentage_of_matchings_def Let_def)
  from stage4_returns [OF assms(3-6)] assms(7)
  obtain fm cm inliers rvec tvec where s4: "stage4 E st candidate = Inr ((fm, cm), inliers, rvec, tvec)"
    and l: "length fm = length cm" "\<forall>i\<in>set inliers. 0 \<le> i \<and> i < int (length fm)"
    by blast
  from inlier_pairs_Some [OF l] obtain pairs where "inlier_pairs fm cm inliers = Some pairs" ..
  from close_loop_edges_eq [OF this, of E rvec tvec "graph st" "lc_found st"]
  obtain g lc where "close_loop_edges E fm cm inliers rvec tvec (graph st, lc_found st) = Some (g, lc)"
    by simp
  with s1 s4 show ?thesis
    by (auto simp: closeLoopWithCluster_def Let_def)
qed

lemma scenario_matches_in_range:
  "matches_in_range (scenario_env closest frame_vertices inliers_among created)"
  by (auto simp: matches_in_range_def scenario_env_def)

lemma scenario_inliers_in_range:
  "inliers_in_range (scenario_env closest frame_vertices all_inliers created)"
  by (auto simp: inliers_in_range_def scenario_env_def all_inliers_def)

lemma aligned_scenario_cluster: "aligned (scenario_cluster i f n)"
  by (simp add: aligned_def scenario_cluster_def)

lemma store_aligned_scenario:
  assumes "\<forall>c\<in>set stored. aligned c"
  shows "store_aligned (scenario_state c0 stored table found)"
proof -
  have "length (yml_kp y) = length (yml_desc y) \<and> length (yml_points y) = length (yml_desc y)"
    if "map_of (map scenario_yml stored) i = Some (Yml y)" for i y
  proof -
    from that have "(i, Yml y) \<in> set (map scenario_yml stored)"
      by (rule map_of_SomeD)
    then obtain c where "c \<in> set stored" and "scenario_yml c = (i, Yml y)"
      by auto
    with assms show ?thesis
      by (auto simp: scenario_yml_def aligned_def)
  qed
  then show ?thesis
    by (simp add: store_aligned_def scenario_state_def)
qed

text \<open>
  Claim C1, as the code has it. A call that returns gives success if and only if the
  percentage of stage 1 is above 35, stage 3 has at least \<^verbatim>\<open>LC_MIN_INLIERS\<close> matches
  and \<^verbatim>\<open>solvePnPRansac\<close> has at least \<^verbatim>\<open>LC_MIN_INLIERS\<close> inliers, whether or not a pair
  of clusters has five inliers. On failure nothing changes but the count of the runs of
  \<^verbatim>\<open>solvePnPRansac\<close>: no edge, no update of the graph, no loop closure recorded. On
  success the graph is the one stage 6 leaves, updated once, and the loop closures are
  those stage 6 leaves. The call returns when the clusters have descriptors and are
  row-aligned, as are the stored ones, the matches are rows of the matrices matched and
  the inliers are indices of the points given.
\<close>

theorem closeLoopWithCluster_gates:
  fixes E :: "('f, 't::{times,inverse}, 'g, 'b) env"
  shows
  "(closeLoopWithCluster E st candidate = Inr (valid, st') \<longrightarrow>
      (valid \<longleftrightarrow>
         (\<exists>p. stage1 E st candidate = Inr p \<and> 35 < p) \<and>
         LC_MIN_INLIERS E \<le> length (matches_2 E st candidate) \<and>
         (\<exists>ms inliers rvec tvec. stage4 E st candidate = Inr (ms, inliers, rvec, tvec) \<and>
            LC_MIN_INLIERS E \<le> length inliers)) \<and>
      (\<not> valid \<longrightarrow> st' = st\<lparr>pnp_runs := pnp_runs st'\<rparr>) \<and>
      (valid \<longrightarrow>
         (\<exists>fm cm inliers rvec tvec g.
            stage4 E st candidate = Inr ((fm, cm), inliers, rvec, tvec) \<and>
            close_loop_edges E fm cm inliers rvec tvec (graph st, lc_found st) =
              Some (g, lc_found st') \<and>
            graph st' = Graph_update E g))) \<and>
   (getLdb (c_cluster st) \<noteq> [] \<and> getLdb candidate \<noteq> [] \<and>
    aligned (c_cluster st) \<and> aligned candidate \<and> store_aligned st \<and>
    matches_in_range E \<and> inliers_in_range E \<longrightarrow>
      (\<exists>valid st'. closeLoopWithCluster E st candidate = Inr (valid, st')))"
  using closeLoopWithCluster_outcome [of E st candidate valid st']
    closeLoopWithCluster_returns [of st candidate E]
  by blast

text \<open>
  A verification that succeeds with one edge, and one that is abandoned with three
  inliers.
\<close>

theorem closeLoopWithCluster_gates_witness:
  "getLdb (c_cluster single_scenario) \<noteq> [] \<and>
   getLdb (readCluster single_env single_scenario 1) \<noteq> [] \<and>
   aligned (c_cluster single_scenario) \<and> aligned (readCluster single_env single_scenario 1) \<and>
   store_aligned single_scenario \<and> matches_in_range single_env \<and> inliers_in_range single_env \<and>
   (\<exists>st'. closeLoopWithCluster single_env single_scenario (readCluster single_env single_scenario 1) =
       Inr (True, st') \<and>
     graph st' = ([(1, 10, 1 / 2, 10)], 1) \<and> lc_found st' = [(10, 1)] \<and>
     (\<exists>p. stage1 single_env single_scenario (readCluster single_env single_scenario 1) = Inr p \<and>
        35 < p) \<and>
     LC_MIN_INLIERS single_env \<le>
       length (matches_2 single_env single_scenario (readCluster single_env single_scenario 1)) \<and>
     (\<exists>ms inliers rvec tvec.
        stage4 single_env single_scenario (readCluster single_env single_scenario 1) =
          Inr (ms, inliers, rvec, tvec) \<and>
        LC_MIN_INLIERS single_env \<le> length inliers)) \<and>
   (\<exists>st'. closeLoopWithCluster few_inliers_env single_scenario
             (readCluster few_inliers_env single_scenario 1) = Inr (False, st') \<and>
     st' = single_scenario\<lparr>pnp_runs := pnp_runs st'\<rparr> \<and>
     graph st' = ([], 0) \<and> lc_found st' = [] \<and> pnp_runs st' = 1)"
proof -
  let ?N = "readCluster single_env single_scenario 1"
  let ?M = "readCluster few_inliers_env single_scenario 1"
  have w1: "getLdb (c_cluster single_scenario) \<noteq> []"
    by code_simp
  have w2: "getLdb ?N \<noteq> []"
    by code_simp
  have w3: "aligned (c_cluster single_scenario)"
    by (simp add: single_scenario_def scenario_state_def aligned_scenario_cluster)
  have w5: "store_aligned single_scenario"
    unfolding single_scenario_def
    by (rule store_aligned_scenario) (simp add: aligned_scenario_cluster)
  have w4: "aligned ?N"
    by (rule aligned_readCluster [OF w5])
  have w6: "matches_in_range single_env"
    unfolding single_env_def by (rule scenario_matches_in_range)
  have w7: "inliers_in_range single_env"
    unfolding single_env_def by (rule scenario_inliers_in_range)
  have "observe_verification (closeLoopWithCluster single_env single_scenario ?N) =
      Inr (True, ([(1, 10, 1 / 2, 10)], 1), [(10, 1)], 1)"
    by code_simp
  then obtain st1 where r1: "closeLoopWithCluster single_env single_scenario ?N = Inr (True, st1)"
    and g1: "graph st1 = ([(1, 10, 1 / 2, 10)], 1)" "lc_found st1 = [(10, 1)]"
    by (cases "closeLoopWithCluster single_env single_scenario ?N")
      (auto simp: observe_verification_def)
  from closeLoopWithCluster_gates [of single_env single_scenario ?N True st1] r1
  have a: "(\<exists>p. stage1 single_env single_scenario ?N = Inr p \<and> 35 < p) \<and>
     LC_MIN_INLIERS single_env \<le> length (matches_2 single_env single_scenario ?N) \<and>
     (\<exists>ms inliers rvec tvec. stage4 single_env single_scenario ?N = Inr (ms, inliers, rvec, tvec) \<and>
        LC_MIN_INLIERS single_env \<le> length inliers)"
    by blast
  have "observe_verification (closeLoopWithCluster few_inliers_env single_scenario ?M) =
      Inr (False, ([], 0), [], 1)"
    by code_simp
  then obtain st2 where r2:
      "closeLoopWithCluster few_inliers_env single_scenario ?M = Inr (False, st2)"
    and g2: "graph st2 = ([], 0)" "lc_found st2 = []" "pnp_runs st2 = 1"
    by (cases "closeLoopWithCluster few_inliers_env single_scenario ?M")
      (auto simp: observe_verification_def)
  from closeLoopWithCluster_gates [of few_inliers_env single_scenario ?M False st2] r2
  have b: "st2 = single_scenario\<lparr>pnp_runs := pnp_runs st2\<rparr>"
    by blast
  from w1 w2 w3 w4 w5 w6 w7 r1 g1 a r2 g2 b show ?thesis
    by blast
qed

text \<open>
  Claim C1 as stated fails: six inliers, three for the clusters 10 and 1 and three for
  the clusters 11 and 1, reach the minimum of six; no pair has five, no edge is added,
  and the call updates the graph and returns success.
\<close>

theorem closeLoopWithCluster_valid_without_pair:
  "observe_verification
     (closeLoopWithCluster split_env split_scenario (readCluster split_env split_scenario 1)) =
     Inr (True, ([], 1), [], 1) \<and>
   map_sum id (\<lambda>(ms, inliers, rt). (ms, inliers))
     (stage4 split_env split_scenario (readCluster split_env split_scenario 1)) =
     Inr ((replicate 10 10 @ replicate 10 11, replicate 20 1), [0, 1, 2, 10, 11, 12]) \<and>
   inlier_pairs (replicate 10 10 @ replicate 10 11) (replicate 20 1) [0, 1, 2, 10, 11, 12] =
     Some [(10, 1), (10, 1), (10, 1), (11, 1), (11, 1), (11, 1)] \<and>
   filter (\<lambda>p. 5 \<le> count_list [(10, 1), (10, 1), (10, 1), (11, 1), (11, 1), (11::int, 1::int)] p)
     [(10, 1), (10, 1), (10, 1), (11, 1), (11, 1), (11, 1)] = []"
  by code_simp

subsection \<open>The searches\<close>

text \<open>
  Claim C2 at a failing input. The proximity search proposes the clusters 1 and 2. The
  verification of cluster 1, which takes in its neighbour 2, records the loop closures of
  cluster 10 with both. The search then verifies cluster 2 all the same, and both edges
  are added, and both loop closures recorded, a second time: lines 132 to 147 do not
  look at \<^verbatim>\<open>lc_found_\<close>, as lines 549 to 573 do for the hash search.
\<close>

theorem searchByProximity_repeats_pair:
  "observe_verification
     (closeLoopWithCluster near_env near_scenario (readCluster near_env near_scenario 1)) =
     Inr (True, ([(1, 10, 1 / 2, 10), (2, 10, 3 / 8, 10)], 1), [(10, 1), (10, 2)], 1) \<and>
   findClosestVertices near_env (graph near_scenario) (getId (c_cluster near_scenario))
     (getId (c_cluster near_scenario)) (LC_DISCARD_WINDOW near_env) 3 = [1, 2] \<and>
   observe_search (searchByProximity near_env near_scenario) =
     Inr (([(1, 10, 1 / 2, 10), (2, 10, 3 / 8, 10), (2, 10, 3 / 8, 10), (1, 10, 1 / 2, 10)], 2),
          [(10, 1), (10, 2), (10, 2), (10, 1)], 2)"
  by code_simp

lemma files_closeLoopWithCluster:
  "closeLoopWithCluster E st candidate = Inr (valid, st') \<Longrightarrow> files st' = files st"
  by (auto simp: closeLoopWithCluster_def Let_def split: sum.splits if_splits option.splits prod.splits)

lemma getLdb_readCluster_files:
  "files st' = files st \<Longrightarrow> getLdb (readCluster E st' i) = getLdb (readCluster E st i)"
  by (simp add: readCluster_def empty_Cluster_def split: option.splits yml_file.splits)

lemma verify_candidates_filter:
  "verify_candidates E st candidates =
   verify_candidates E st (filter (\<lambda>i. length (getLdb (readCluster E st i)) \<noteq> 0) candidates)"
proof (induction candidates arbitrary: st)
  case Nil
  show ?case by simp
next
  case (Cons i rest)
  show ?case
  proof (cases "length (getLdb (readCluster E st i)) = 0")
    case True
    with Cons.IH [of st] show ?thesis by simp
  next
    case False
    show ?thesis
    proof (cases "closeLoopWithCluster E st (readCluster E st i)")
      case (Inl e)
      with False show ?thesis by simp
    next
      case (Inr r)
      obtain valid st' where r: "r = (valid, st')" by (cases r)
      from files_closeLoopWithCluster [OF Inr [unfolded r]]
      have "\<And>j. getLdb (readCluster E st' j) = getLdb (readCluster E st j)"
        by (rule getLdb_readCluster_files)
      with Cons.IH [of st'] False Inr r show ?thesis by simp
    qed
  qed
qed

lemma verify_candidates_all_empty:
  "\<forall>i\<in>set candidates. length (getLdb (readCluster E st i)) = 0 \<Longrightarrow>
   verify_candidates E st candidates = Inr st"
  by (induction candidates) auto

lemma files_unstored: "files unstored_scenario i = None"
  by (simp add: unstored_scenario_def scenario_state_def)

text \<open>
  Claim C7. \<^verbatim>\<open>readCluster\<close> has a cluster for every identifier: the empty cluster, of
  zero descriptor rows, when the file is absent or cannot be opened. The loop of both
  searches runs the verification on the candidates with descriptor rows only; when no
  candidate has any, each search returns the state as it was, with no run of
  \<^verbatim>\<open>solvePnPRansac\<close>, the same graph and the same loop closures.
\<close>

theorem empty_clusters_skipped:
  fixes E :: "('f::linorder, 't::{times,inverse}, 'g, 'b) env"
  shows
  "(files st i = None \<or> files st i = Some Unopenable \<longrightarrow>
      readCluster E st i = empty_Cluster E \<and> length (getLdb (readCluster E st i)) = 0) \<and>
   verify_candidates E st candidates =
     verify_candidates E st (filter (\<lambda>i. length (getLdb (readCluster E st i)) \<noteq> 0) candidates) \<and>
   ((\<forall>i\<in>set (findClosestVertices E (graph st) (getId (c_cluster st)) (getId (c_cluster st))
               (LC_DISCARD_WINDOW E) 3).
       length (getLdb (readCluster E st i)) = 0) \<longrightarrow>
      searchByProximity E st = Inr st) \<and>
   (getCandidates E st (getId (c_cluster st)) = Inr hash_matching \<and>
    (\<forall>c\<in>set hash_matching. length (getLdb (readCluster E st (fst c))) = 0) \<longrightarrow>
      searchByHash E st = Inr st)"
proof -
  have a: "files st i = None \<or> files st i = Some Unopenable \<Longrightarrow>
      readCluster E st i = empty_Cluster E \<and> length (getLdb (readCluster E st i)) = 0"
    by (auto simp: readCluster_def empty_Cluster_def)
  have c: "searchByProximity E st = Inr st"
    if "\<forall>i\<in>set (findClosestVertices E (graph st) (getId (c_cluster st)) (getId (c_cluster st))
               (LC_DISCARD_WINDOW E) 3). length (getLdb (readCluster E st i)) = 0"
    using verify_candidates_all_empty [OF that] by (simp add: searchByProximity_def)
  have d: "searchByHash E st = Inr st"
    if "getCandidates E st (getId (c_cluster st)) = Inr hash_matching"
      and "\<forall>c\<in>set hash_matching. length (getLdb (readCluster E st (fst c))) = 0"
    using that verify_candidates_all_empty [of "map fst hash_matching" E st]
    by (simp add: searchByHash_def)
  from a verify_candidates_filter [of E st candidates] c d show ?thesis by blast
qed

text \<open>A store without files, and a candidate without file before one with.\<close>

theorem empty_clusters_skipped_witness:
  "files unstored_scenario 1 = None \<and>
   readCluster near_env unstored_scenario 1 = empty_Cluster near_env \<and>
   findClosestVertices near_env (graph unstored_scenario) (getId (c_cluster unstored_scenario))
     (getId (c_cluster unstored_scenario)) (LC_DISCARD_WINDOW near_env) 3 = [1, 2] \<and>
   length (getLdb (readCluster near_env unstored_scenario 1)) = 0 \<and>
   length (getLdb (readCluster near_env unstored_scenario 2)) = 0 \<and>
   searchByProximity near_env unstored_scenario = Inr unstored_scenario \<and>
   getCandidates near_env unstored_scenario (getId (c_cluster unstored_scenario)) =
     Inr [(8, - 2), (7, - 3), (6, - 4), (5, - 5), (4, - 6)] \<and>
   searchByHash near_env unstored_scenario = Inr unstored_scenario \<and>
   verify_candidates near_env near_scenario [7, 1] = verify_candidates near_env near_scenario [1]"
proof -
  let ?hm = "[(8, - 2), (7, - 3), (6, - 4), (5, - 5), (4::int, - 6::rat)]"
  note skipped = empty_clusters_skipped [of unstored_scenario _ near_env "[1, 2]" ?hm]
  have a: "files unstored_scenario 1 = None" by (rule files_unstored)
  from skipped [of 1] a have b: "readCluster near_env unstored_scenario 1 = empty_Cluster near_env"
    by blast
  have e: "length (getLdb (readCluster near_env unstored_scenario i)) = 0" for i
    using empty_clusters_skipped [of unstored_scenario i near_env "[]" "[]"] files_unstored [of i]
    by blast
  have c: "findClosestVertices near_env (graph unstored_scenario) (getId (c_cluster unstored_scenario))
     (getId (c_cluster unstored_scenario)) (LC_DISCARD_WINDOW near_env) 3 = [1, 2]"
    by code_simp
  from skipped [of 1] c e have d: "searchByProximity near_env unstored_scenario = Inr unstored_scenario"
    by simp
  have g: "getCandidates near_env unstored_scenario (getId (c_cluster unstored_scenario)) = Inr ?hm"
    by code_simp
  from skipped [of 1] g e have h: "searchByHash near_env unstored_scenario = Inr unstored_scenario"
    by simp
  have f: "filter (\<lambda>i. length (getLdb (readCluster near_env near_scenario i)) \<noteq> 0) [7, 1] = [1]"
    by code_simp
  from empty_clusters_skipped [of near_scenario 7 near_env "[7, 1]" "[]"]
  have k: "verify_candidates near_env near_scenario [7, 1] = verify_candidates near_env near_scenario [1]"
    unfolding f by blast
  from a b c e [of 1] e [of 2] d g h k show ?thesis by blast
qed

subsection \<open>The cluster store\<close>

text \<open>
  Claim C9. The cluster that \<^verbatim>\<open>processNewCluster\<close> takes from the queue and writes is
  read back by \<^verbatim>\<open>readCluster\<close> under its identifier with the same frame and as many
  keypoints, descriptor rows and world points. The file is taken to hold as many
  entries as \<^verbatim>\<open>cv::FileStorage\<close> was given.
\<close>

theorem store_round_trip:
  assumes "cluster_queue st = c # rest"
  shows "\<exists>st'. processNewCluster E st = Inr st' \<and>
     getId (readCluster E st' (getId c)) = getId c \<and>
     getFrameId (readCluster E st' (getId c)) = getFrameId c \<and>
     length (getKp (readCluster E st' (getId c))) = length (getKp c) \<and>
     length (getLdb (readCluster E st' (getId c))) = length (getLdb c) \<and>
     length (getWorldPoints E (readCluster E st' (getId c))) = length (getWorldPoints E c)"
  using assms
  by (simp add: processNewCluster_def readCluster_def Let_def getWorldPoints_def)

text \<open>Cluster 2 of frame 7, with four features.\<close>

theorem store_round_trip_witness:
  "cluster_queue (history_scenario 2 [scenario_cluster 2 7 4]) = [scenario_cluster 2 7 4] \<and>
   (\<exists>st'. processNewCluster quiet_env (history_scenario 2 [scenario_cluster 2 7 4]) = Inr st' \<and>
      getFrameId (readCluster quiet_env st' 2) = 7 \<and>
      length (getKp (readCluster quiet_env st' 2)) = 4 \<and>
      length (getLdb (readCluster quiet_env st' 2)) = 4 \<and>
      length (getWorldPoints quiet_env (readCluster quiet_env st' 2)) = 4)"
proof -
  let ?c = "scenario_cluster 2 7 4"
  have q: "cluster_queue (history_scenario 2 [?c]) = [?c]"
    by (simp add: history_scenario_def)
  have c: "getId ?c = 2" "getFrameId ?c = 7" "length (getKp ?c) = 4" "length (getLdb ?c) = 4"
    "length (getWorldPoints quiet_env ?c) = 4"
    by (simp_all add: scenario_cluster_def getWorldPoints_def)
  from store_round_trip [OF q, of quiet_env] q show ?thesis
    unfolding c by blast
qed

subsection \<open>Startup\<close>

text \<open>
  Claim C8. When the directory of the clusters cannot be created,
  \<^verbatim>\<open>fs::create_directory\<close> throws; \<^verbatim>\<open>run\<close> does not catch the exception, which ends
  it at once, before its loop, whatever clusters arrive. The start fails with this
  exception only, and only when one of the two directories cannot be created.
\<close>

theorem run_directory_failure_fatal:
  "(create_directory E ''haloc'' = Throws \<longrightarrow>
      run_init E st = Inl FilesystemException \<and>
      (\<forall>turns. run E st turns = Inl FilesystemException)) \<and>
   (run_init E st = Inl e \<longrightarrow>
      e = FilesystemException \<and>
      (create_directory E ''haloc'' = Throws \<or> create_directory E ''loop_closures'' = Throws))"
  by (auto simp: run_def run_init_def split: call.splits)

text \<open>Unwritable storage, with one cluster arriving.\<close>

theorem run_directory_failure_fatal_witness:
  "create_directory throwing_env ''haloc'' = Throws \<and>
   run_init throwing_env startup_scenario = Inl FilesystemException \<and>
   run throwing_env startup_scenario [[scenario_cluster 0 0 4]] = Inl FilesystemException"
proof -
  have a: "create_directory throwing_env ''haloc'' = Throws"
    by (simp add: throwing_env_def scenario_env_def)
  from run_directory_failure_fatal [of throwing_env startup_scenario FilesystemException] a
  show ?thesis
    by blast
qed

end
